theory Spec2Isabelle
  imports Complex_Main "HOL-Library.AList" "HOL-Library.Sublist"
begin

text \<open>
  A TCP ping/pong service: \<^verbatim>\<open>server.py\<close> answers numbered requests, ignores one in ten
  and pushes a keepalive to all clients every 5 seconds; \<^verbatim>\<open>client.py\<close> sends the requests,
  waits for each reply with a timeout and reconnects when the connection breaks.

  Both programs are \<^verbatim>\<open>asyncio\<close> programs: one coroutine runs at a time, from one
  suspension to the next. Each coroutine is modelled by functions on the state of its
  process, one for each such stretch, and a process by the sequence of stretches that run.
  What the outside world decides enters as an argument: the clock readings, the random
  value, the outcome of a read, of a \<^verbatim>\<open>drain\<close>, of a \<^verbatim>\<open>wait_closed\<close>, of an attempt to
  connect. In the server every \<^verbatim>\<open>await\<close> of \<^verbatim>\<open>readuntil\<close>, \<^verbatim>\<open>sleep\<close>, \<^verbatim>\<open>drain\<close> and
  \<^verbatim>\<open>wait_closed\<close> ends a stretch, so that any other coroutine may run before the next
  one; a \<^verbatim>\<open>drain\<close> that returns at once is the case where none does.
  Of the library it is assumed that \<^verbatim>\<open>writer.write\<close> and \<^verbatim>\<open>writer.close()\<close> return
  without raising (\<^verbatim>\<open>write\<close> on a lost connection drops the data, the error shows at
  \<^verbatim>\<open>drain\<close>), and that writing the log file succeeds. Messages to the process logger,
  which is not the audit log, are left out.
\<close>

section \<open>Python values used by both roles\<close>

text \<open>
  The exceptions that the code of \<^verbatim>\<open>server.py\<close> and \<^verbatim>\<open>client.py\<close> distinguishes in its
  \<^verbatim>\<open>except\<close> clauses. \<open>OtherError\<close> stands for any other subclass of \<^verbatim>\<open>Exception\<close>
  (for instance \<^verbatim>\<open>OSError\<close> outside \<^verbatim>\<open>ConnectionError\<close>, \<^verbatim>\<open>LimitOverrunError\<close>).
\<close>

datatype exn =
    ConnectionError | IncompleteReadError | TimeoutError
  | UnicodeDecodeError | KeyError | RuntimeError | OtherError

text \<open>Bytes and ASCII-decoded text are both lists of 8-bit characters.\<close>

type_synonym bytes = string

text \<open>\<^verbatim>\<open>data.decode('ascii')\<close>: raises \<^verbatim>\<open>UnicodeDecodeError\<close> on a byte above 127.\<close>

definition decode_ascii :: "bytes \<Rightarrow> string option" where
  "decode_ascii data =
     (if list_all (\<lambda>c. (of_char c :: nat) < 128) data then Some data else None)"

text \<open>
  \<^verbatim>\<open>str.strip()\<close> removes the characters for which \<^verbatim>\<open>str.isspace\<close> holds; in ASCII these
  are 9..13, 28..31 and the blank.
\<close>

definition isspace :: "char \<Rightarrow> bool" where
  "isspace c = (let n = (of_char c :: nat) in (9 \<le> n \<and> n \<le> 13) \<or> (28 \<le> n \<and> n \<le> 32))"

definition strip :: "string \<Rightarrow> string" where
  "strip s = rev (dropWhile isspace (rev (dropWhile isspace s)))"

text \<open>\<^verbatim>\<open>s.split(sep)\<close> for a one-character separator: never the empty list.\<close>

fun py_split :: "char \<Rightarrow> string \<Rightarrow> string list" where
  "py_split sep [] = [[]]"
| "py_split sep (c # cs) =
     (if c = sep then [] # py_split sep cs
      else (case py_split sep cs of
              [] \<Rightarrow> [[c]]
            | p # ps \<Rightarrow> (c # p) # ps))"

text \<open>\<^verbatim>\<open>sub in s\<close> on strings.\<close>

fun contains :: "string \<Rightarrow> string \<Rightarrow> bool" where
  "contains sub [] = (sub = [])"
| "contains sub (c # cs) = (prefix sub (c # cs) \<or> contains sub cs)"

text \<open>\<^verbatim>\<open>str(n)\<close>, which is also how an f-string renders an integer.\<close>

definition digit_char :: "nat \<Rightarrow> char" where
  "digit_char d = char_of (48 + d)"

fun digits_of :: "nat \<Rightarrow> string" where
  "digits_of n = (if n < 10 then [digit_char n] else digits_of (n div 10) @ [digit_char (n mod 10)])"

declare digits_of.simps [simp del]

definition str_int :: "int \<Rightarrow> string" where
  "str_int i = (if i < 0 then CHR ''-'' # digits_of (nat (- i)) else digits_of (nat i))"

text \<open>
  \<^verbatim>\<open>int(s)\<close> on an ASCII string, base 10: blanks of the C locale (9..13 and 32) around the
  literal, an optional sign, then decimal digits with single underscores between digits.
  CPython refuses more than 4300 digit characters. \<open>None\<close> is \<^verbatim>\<open>ValueError\<close>.
\<close>

definition c_isspace :: "char \<Rightarrow> bool" where
  "c_isspace c = (let n = (of_char c :: nat) in (9 \<le> n \<and> n \<le> 13) \<or> n = 32)"

definition is_digit :: "char \<Rightarrow> bool" where
  "is_digit c = (let n = (of_char c :: nat) in 48 \<le> n \<and> n \<le> 57)"

definition digit_or_underscore :: "char \<Rightarrow> bool" where
  "digit_or_underscore c = (is_digit c \<or> c = CHR ''_'')"

fun double_underscore :: "string \<Rightarrow> bool" where
  "double_underscore (a # b # cs) =
     ((a = CHR ''_'' \<and> b = CHR ''_'') \<or> double_underscore (b # cs))"
| "double_underscore cs = False"

definition digits_value :: "string \<Rightarrow> nat" where
  "digits_value ds = foldl (\<lambda>a c. 10 * a + ((of_char c :: nat) - 48)) 0 ds"

definition int_max_str_digits :: nat where
  "int_max_str_digits = 4300"

definition py_int :: "string \<Rightarrow> int option" where
  "py_int s =
     (let t = dropWhile c_isspace s;
          negative = (t \<noteq> [] \<and> hd t = CHR ''-'');
          u = (if t \<noteq> [] \<and> (hd t = CHR ''+'' \<or> hd t = CHR ''-'') then tl t else t);
          body = takeWhile digit_or_underscore u;
          rest = dropWhile digit_or_underscore u;
          ds = filter is_digit body
      in if body = [] \<or> hd body = CHR ''_'' \<or> last body = CHR ''_''
            \<or> double_underscore body \<or> \<not> list_all c_isspace rest
            \<or> int_max_str_digits < length ds
         then None
         else Some (if negative then - int (digits_value ds) else int (digits_value ds)))"

text \<open>
  The double nearest to the literal \<^verbatim>\<open>0.1\<close>. \<^verbatim>\<open>random.random()\<close> returns a multiple
  of \<open>2 ^ -53\<close> in \<open>[0, 1)\<close>.
\<close>

definition float_0_1 :: real where
  "float_0_1 = 3602879701896397 / 2 ^ 55"

definition random_value :: "nat \<Rightarrow> real" where
  "random_value k = real k / 2 ^ 53"

text \<open>
  A Python \<^verbatim>\<open>dict\<close> is an association list in insertion order with distinct keys:
  \<^verbatim>\<open>d[k] = v\<close> is \<^const>\<open>AList.update\<close>; \<^verbatim>\<open>del d[k]\<close> raises \<^verbatim>\<open>KeyError\<close> when
  \<open>k\<close> is absent.
\<close>

definition dict_del :: "'k \<Rightarrow> ('k \<times> 'v) list \<Rightarrow> exn + ('k \<times> 'v) list" where
  "dict_del k d = (if map_of d k = None then Inl KeyError else Inr (AList.delete k d))"

text \<open>The outcome of \<^verbatim>\<open>await reader.readuntil(b'\n')\<close>.\<close>

datatype read_result = Data bytes | Raises exn

text \<open>
  The audit log file of a role instance, one element per line written. Opening with mode
  \<^verbatim>\<open>'w'\<close> and writing the empty string leaves the empty file; every
  \<^verbatim>\<open>f.write(log_line + '\n')\<close> under mode \<^verbatim>\<open>'a'\<close> adds one line at the end.
\<close>

record role =
  log_file :: "string list"

definition truncate_log :: "'a role_scheme \<Rightarrow> 'a role_scheme" where
  "truncate_log r = r\<lparr>log_file := []\<rparr>"

definition append_log :: "string \<Rightarrow> 'a role_scheme \<Rightarrow> 'a role_scheme" where
  "append_log log_line r = r\<lparr>log_file := log_file r @ [log_line]\<rparr>"

section \<open>The server (\<^verbatim>\<open>server.py\<close>)\<close>

text \<open>A \<^verbatim>\<open>StreamWriter\<close> object is named by a number.\<close>

type_synonym writer = nat

text \<open>The two messages the server writes, and their text on the wire.\<close>

datatype msg = Pong int int int | Keepalive int

fun msg_text :: "msg \<Rightarrow> string" where
  "msg_text (Pong response_id request_num client_id) =
     ''['' @ str_int response_id @ ''/'' @ str_int request_num @ ''] PONG (''
       @ str_int client_id @ '')''"
| "msg_text (Keepalive response_id) = ''['' @ str_int response_id @ ''] keepalive''"



text \<open>
  Where a \<^verbatim>\<open>handle_client\<close> coroutine is suspended, and the local variables it holds
  there: in \<^verbatim>\<open>readuntil\<close> (\<open>client_id\<close>); in \<^verbatim>\<open>asyncio.sleep(delay)\<close> (\<open>client_id\<close>,
  \<open>request_time\<close>, \<open>message\<close>, \<open>request_num\<close>); in \<^verbatim>\<open>writer.drain()\<close> (\<open>client_id\<close>,
  \<open>request_time\<close>, \<open>message\<close>, \<open>response_time\<close>, \<open>response_msg\<close>); in
  \<^verbatim>\<open>writer.wait_closed()\<close> of the \<^verbatim>\<open>finally\<close> block (the exception on its way out of the
  \<^verbatim>\<open>try\<close> block, if any).
\<close>

datatype hstate =
    Reading int
  | Sleeping int string string int
  | Draining int string string string string
  | Closing "exn option"

text \<open>
  Where \<^verbatim>\<open>keepalive_task\<close> is: in \<^verbatim>\<open>asyncio.sleep(5)\<close>; in the \<^verbatim>\<open>drain\<close> of one turn of the
  loop over \<^verbatim>\<open>self.clients.items()\<close>; or ended by an exception. In the loop it holds
  \<open>response_id\<close>, the size of the dictionary when the iteration began, the writers the
  iteration has yielded so far, the list \<^verbatim>\<open>disconnected\<close>, and the writer of this turn.
\<close>

datatype kstate =
    Waiting
  | Sending int nat "writer list" "writer list" writer
  | Ended exn

text \<open>
  The fields of \<^verbatim>\<open>TCPServer\<close>, then what the process did: \<open>wire\<close> lists every
  \<^verbatim>\<open>writer.write\<close> in order, \<open>closed_writers\<close> every \<^verbatim>\<open>writer.close()\<close>; \<open>handlers\<close> are
  the live \<^verbatim>\<open>handle_client\<close> coroutines, \<open>finished\<close> the ended ones with the exception
  that left them, \<open>keepalive\<close> is the state of \<^verbatim>\<open>keepalive_task\<close>.
\<close>

record server = role +
  response_counter :: int
  client_counter :: int
  clients :: "(writer \<times> int) list"
  wire :: "(writer \<times> msg) list"
  closed_writers :: "writer list"
  handlers :: "(writer \<times> hstate) list"
  finished :: "(writer \<times> exn option) list"
  keepalive :: kstate

text \<open>\<^verbatim>\<open>TCPServer.__init__\<close>; \<open>file\<close> is what the file at the log path holds.\<close>

definition TCPServer_init :: "string list \<Rightarrow> server" where
  "TCPServer_init file =
     \<lparr>log_file = file, response_counter = 0, client_counter = 0, clients = [],
      wire = [], closed_writers = [], handlers = [], finished = [], keepalive = Waiting\<rparr>"

definition get_next_client_id :: "server \<Rightarrow> int \<times> server" where
  "get_next_client_id s =
     (let s' = s\<lparr>client_counter := client_counter s + 1\<rparr> in (client_counter s', s'))"

definition get_next_response_id :: "server \<Rightarrow> int \<times> server" where
  "get_next_response_id s =
     (let s' = s\<lparr>response_counter := response_counter s + 1\<rparr>
      in (response_counter s' - 1, s'))"

text \<open>
  The marker of an ignored request: the Russian word for "ignored" in parentheses, as the
  bytes of its UTF-8 encoding.
\<close>

definition ignored_marker :: string where
  "ignored_marker =
     [CHR 0x28, CHR 0xD0, CHR 0xBF, CHR 0xD1, CHR 0x80, CHR 0xD0, CHR 0xBE, CHR 0xD0,
      CHR 0xB8, CHR 0xD0, CHR 0xB3, CHR 0xD0, CHR 0xBD, CHR 0xD0, CHR 0xBE, CHR 0xD1,
      CHR 0x80, CHR 0xD0, CHR 0xB8, CHR 0xD1, CHR 0x80, CHR 0xD0, CHR 0xBE, CHR 0xD0,
      CHR 0xB2, CHR 0xD0, CHR 0xB0, CHR 0xD0, CHR 0xBD, CHR 0xD0, CHR 0xBE, CHR 0x29]"

text \<open>
  \<^verbatim>\<open>TCPServer._write_log\<close>. \<open>date_str\<close> is what \<^verbatim>\<open>_format_date()\<close> returns at the call;
  \<open>response\<close> is \<open>None\<close> when \<^verbatim>\<open>response_time\<close> is left at its default.
\<close>

definition write_log ::
  "string \<Rightarrow> string \<Rightarrow> string \<Rightarrow> (string \<times> string) option \<Rightarrow> server \<Rightarrow> server" where
  "write_log date_str request_time request_msg response s =
     (let log_line =
        (case response of
           None \<Rightarrow> date_str @ '';'' @ request_time @ '';'' @ request_msg @ '';''
                     @ ignored_marker @ '';'' @ ignored_marker
         | Some (response_time, response_msg) \<Rightarrow>
             date_str @ '';'' @ request_time @ '';'' @ request_msg @ '';''
               @ response_time @ '';'' @ response_msg)
      in append_log log_line s)"

text \<open>\<^verbatim>\<open>int(message[1:].split(']')[0])\<close>; \<open>None\<close> is \<^verbatim>\<open>ValueError\<close> or \<^verbatim>\<open>IndexError\<close>.\<close>

definition parse_request :: "string \<Rightarrow> int option" where
  "parse_request message =
     (case py_split CHR '']'' (drop 1 message) of
        [] \<Rightarrow> None
      | p # ps \<Rightarrow> py_int p)"

text \<open>
  The format of a request, as the comment of line 113 names it and as the client writes
  it (\<^verbatim>\<open>client.py\<close> line 101): \<^verbatim>\<open>[<request_number>] PING\<close> with the request number in
  decimal digits.
\<close>

definition request_format :: "string \<Rightarrow> bool" where
  "request_format m =
     (let ds = takeWhile is_digit (drop 1 m)
      in take 1 m = ''['' \<and> ds \<noteq> [] \<and> drop (1 + length ds) m = ''] PING'')"

text \<open>
  The characters of a line between index 1 and the first \<^verbatim>\<open>]\<close>, all of them from index 1
  on when there is none: what \<^verbatim>\<open>message[1:].split(']')[0]\<close> evaluates to.
\<close>

definition bracket_text :: "string \<Rightarrow> string" where
  "bracket_text m = takeWhile (\<lambda>c. c \<noteq> CHR '']'') (drop 1 m)"

subsection \<open>\<^verbatim>\<open>handle_client\<close>, one piece per stretch between two suspensions\<close>

text \<open>Lines 84 to 88: the connection is registered.\<close>

definition handle_accept :: "writer \<Rightarrow> server \<Rightarrow> server" where
  "handle_accept w s =
     (let (client_id, s1) = get_next_client_id s
      in s1\<lparr>clients := AList.update w client_id (clients s1),
            handlers := AList.update w (Reading client_id) (handlers s1)\<rparr>)"

text \<open>
  The \<^verbatim>\<open>finally\<close> block (lines 138 to 143) up to its \<^verbatim>\<open>await\<close>. \<open>pending\<close> is the exception
  on its way out of the \<^verbatim>\<open>try\<close> block, if any. A \<^verbatim>\<open>KeyError\<close> of
  \<^verbatim>\<open>del self.clients[writer]\<close> leaves the block, and the coroutine, before
  \<^verbatim>\<open>writer.close()\<close>.
\<close>

definition handle_finally :: "writer \<Rightarrow> exn option \<Rightarrow> server \<Rightarrow> server" where
  "handle_finally w pending s =
     (case dict_del w (clients s) of
        Inl e \<Rightarrow> s\<lparr>handlers := AList.delete w (handlers s),
                   finished := finished s @ [(w, Some e)]\<rparr>
      | Inr d \<Rightarrow> s\<lparr>clients := d, closed_writers := closed_writers s @ [w],
                   handlers := AList.update w (Closing pending) (handlers s)\<rparr>)"

text \<open>
  The end of \<^verbatim>\<open>await writer.wait_closed()\<close>, which returns or raises the error that broke
  the connection; an exception raised here takes the place of \<open>pending\<close>.
\<close>

definition handle_closed :: "writer \<Rightarrow> exn option \<Rightarrow> exn option \<Rightarrow> server \<Rightarrow> server" where
  "handle_closed w pending outcome s =
     s\<lparr>handlers := AList.delete w (handlers s),
       finished := finished s @ [(w, case outcome of None \<Rightarrow> pending | Some e \<Rightarrow> Some e)]\<rparr>"

text \<open>
  An exception raised inside the \<^verbatim>\<open>try\<close> block: \<^verbatim>\<open>except ConnectionError\<close> ends it there,
  any other one goes on through \<^verbatim>\<open>finally\<close>.
\<close>

definition handle_raise :: "writer \<Rightarrow> exn \<Rightarrow> server \<Rightarrow> server" where
  "handle_raise w e s = handle_finally w (if e = ConnectionError then None else Some e) s"

text \<open>
  Lines 92 to 121: from the return of \<^verbatim>\<open>readuntil\<close> to the next suspension. \<open>rnd\<close> is
  the value of \<^verbatim>\<open>random.random()\<close>, \<open>request_time\<close> and \<open>date_str\<close> the clock readings.
  The length of the delay is not modelled, only that the coroutine is suspended in it.
\<close>

definition handle_recv ::
  "writer \<Rightarrow> int \<Rightarrow> read_result \<Rightarrow> string \<Rightarrow> real \<Rightarrow> string \<Rightarrow> server \<Rightarrow> server" where
  "handle_recv w client_id rd request_time rnd date_str s =
     (case rd of
        Raises e \<Rightarrow>
          if e = IncompleteReadError then handle_finally w None s else handle_raise w e s
      | Data data \<Rightarrow>
          (case decode_ascii data of
             None \<Rightarrow> handle_raise w UnicodeDecodeError s
           | Some text \<Rightarrow>
               (let message = strip text
                in if rnd < float_0_1 then write_log date_str request_time message None s
                   else (case parse_request message of
                           None \<Rightarrow> s
                         | Some request_num \<Rightarrow>
                             s\<lparr>handlers := AList.update w
                                 (Sleeping client_id request_time message request_num)
                                 (handlers s)\<rparr>))))"

text \<open>Lines 124 to 129: from the end of the delay to \<^verbatim>\<open>await writer.drain()\<close>.\<close>

definition handle_wake ::
  "writer \<Rightarrow> int \<Rightarrow> string \<Rightarrow> string \<Rightarrow> int \<Rightarrow> string \<Rightarrow> server \<Rightarrow> server" where
  "handle_wake w client_id request_time message request_num response_time s =
     (let (response_id, s1) = get_next_response_id s;
          response = Pong response_id request_num client_id
      in s1\<lparr>wire := wire s1 @ [(w, response)],
            handlers := AList.update w
              (Draining client_id request_time message response_time (msg_text response))
              (handlers s1)\<rparr>)"

text \<open>
  Lines 129 to 134: the end of \<^verbatim>\<open>await writer.drain()\<close>, which returns or raises
  (\<open>outcome\<close>), then the log entry and back to \<^verbatim>\<open>readuntil\<close>.
\<close>

definition handle_drained ::
  "writer \<Rightarrow> int \<Rightarrow> string \<Rightarrow> string \<Rightarrow> string \<Rightarrow> string \<Rightarrow> exn option \<Rightarrow> string
     \<Rightarrow> server \<Rightarrow> server" where
  "handle_drained w client_id request_time message response_time response_msg outcome
       date_str s =
     (case outcome of
        Some e \<Rightarrow> handle_raise w e s
      | None \<Rightarrow>
          (write_log date_str request_time message (Some (response_time, response_msg)) s)
            \<lparr>handlers := AList.update w (Reading client_id) (handlers s)\<rparr>)"

subsection \<open>\<^verbatim>\<open>keepalive_task\<close>\<close>

text \<open>The loop \<^verbatim>\<open>for writer in disconnected: del self.clients[writer]\<close>.\<close>

fun del_all :: "writer list \<Rightarrow> (writer \<times> int) list \<Rightarrow> exn option \<times> (writer \<times> int) list" where
  "del_all [] d = (None, d)"
| "del_all (w # ws) d =
     (case dict_del w d of
        Inl e \<Rightarrow> (Some e, d)
      | Inr d' \<Rightarrow> del_all ws d')"

text \<open>
  One turn of \<^verbatim>\<open>for writer, client_id in self.clients.items()\<close> up to its
  \<^verbatim>\<open>await writer.drain()\<close> and, when the iteration is over, the deletions (lines 162 to
  173). The iterator of a dictionary raises \<^verbatim>\<open>RuntimeError\<close> when the size of the
  dictionary is not what it was when the iteration began; otherwise it yields the first
  entry, in insertion order, that it has not yielded yet (entries deleted meanwhile are
  passed over, new ones stand at the end), but raises \<^verbatim>\<open>RuntimeError\<close> when it has already
  yielded as many entries as the dictionary had at the beginning. A dictionary that is
  added to may rebuild its table, and entries not yet yielded may then come to stand
  behind the position of the iterator: \<open>skip\<close> is the number of entries not yet yielded
  that the iterator passes over for that reason, 0 when the table was not rebuilt.
\<close>

definition keepalive_next ::
  "int \<Rightarrow> nat \<Rightarrow> writer list \<Rightarrow> writer list \<Rightarrow> nat \<Rightarrow> server \<Rightarrow> server" where
  "keepalive_next response_id used seen disconnected skip s =
     (if length (clients s) \<noteq> used then s\<lparr>keepalive := Ended RuntimeError\<rparr>
      else (case drop skip (filter (\<lambda>p. fst p \<notin> set seen) (clients s)) of
              [] \<Rightarrow>
                (case del_all disconnected (clients s) of
                   (None, d) \<Rightarrow> s\<lparr>clients := d, keepalive := Waiting\<rparr>
                 | (Some e, d) \<Rightarrow> s\<lparr>clients := d, keepalive := Ended e\<rparr>)
            | (w, client_id) # others \<Rightarrow>
                if length seen = used then s\<lparr>keepalive := Ended RuntimeError\<rparr>
                else s\<lparr>wire := wire s @ [(w, Keepalive response_id)],
                       keepalive := Sending response_id used (seen @ [w]) disconnected w\<rparr>))"

text \<open>Lines 152 to 162, after the \<^verbatim>\<open>sleep(5)\<close>: the id is allocated and the loop begins.\<close>

definition keepalive_wake :: "server \<Rightarrow> server" where
  "keepalive_wake s =
     (if clients s = [] then s
      else (let (response_id, s1) = get_next_response_id s
            in keepalive_next response_id (length (clients s1)) [] [] 0 s1))"

text \<open>
  The end of \<^verbatim>\<open>await writer.drain()\<close> in the loop (lines 165 to 169), then the next turn.
  \<^verbatim>\<open>except ConnectionError\<close> collects the writer; any other exception ends the task.
\<close>

definition keepalive_drained ::
  "exn option \<Rightarrow> nat \<Rightarrow> int \<Rightarrow> nat \<Rightarrow> writer list \<Rightarrow> writer list \<Rightarrow> writer \<Rightarrow> server
     \<Rightarrow> server" where
  "keepalive_drained outcome skip response_id used seen disconnected w s =
     (case outcome of
        None \<Rightarrow> keepalive_next response_id used seen disconnected skip s
      | Some e \<Rightarrow>
          if e = ConnectionError
          then keepalive_next response_id used seen (disconnected @ [w]) skip s
          else s\<lparr>keepalive := Ended e\<rparr>)"

subsection \<open>The server process as a sequence of events\<close>

text \<open>
  An event names the coroutine that runs next and carries what the outside world
  answers: \<open>Accept\<close> starts \<^verbatim>\<open>handle_client\<close> for a writer not seen before; \<open>Recv\<close>,
  \<open>Wake\<close>, \<open>Drained\<close> and \<open>Closed\<close> resume the handler of a writer that waits in
  \<^verbatim>\<open>readuntil\<close>, \<^verbatim>\<open>sleep\<close>, \<^verbatim>\<open>drain\<close> and \<^verbatim>\<open>wait_closed\<close>; \<open>Tick\<close> is the end of the 5
  second sleep of \<^verbatim>\<open>keepalive_task\<close> and \<open>Flushed\<close> the end of its \<^verbatim>\<open>drain\<close>, with the
  number of entries the iterator then passes over. An event for a coroutine that is not in
  that state changes nothing.
\<close>

datatype event =
    Accept writer
  | Recv writer read_result string real string
  | Wake writer string
  | Drained writer "exn option" string
  | Closed writer "exn option"
  | Tick
  | Flushed "exn option" nat

fun step :: "event \<Rightarrow> server \<Rightarrow> server" where
  "step (Accept w) s =
     (if map_of (handlers s) w = None \<and> map_of (finished s) w = None
      then handle_accept w s else s)"
| "step (Recv w rd request_time rnd date_str) s =
     (case map_of (handlers s) w of
        Some (Reading client_id) \<Rightarrow> handle_recv w client_id rd request_time rnd date_str s
      | _ \<Rightarrow> s)"
| "step (Wake w response_time) s =
     (case map_of (handlers s) w of
        Some (Sleeping client_id request_time message request_num) \<Rightarrow>
          handle_wake w client_id request_time message request_num response_time s
      | _ \<Rightarrow> s)"
| "step (Drained w outcome date_str) s =
     (case map_of (handlers s) w of
        Some (Draining client_id request_time message response_time response_msg) \<Rightarrow>
          handle_drained w client_id request_time message response_time response_msg
            outcome date_str s
      | _ \<Rightarrow> s)"
| "step (Closed w outcome) s =
     (case map_of (handlers s) w of
        Some (Closing pending) \<Rightarrow> handle_closed w pending outcome s
      | _ \<Rightarrow> s)"
| "step Tick s = (case keepalive s of Waiting \<Rightarrow> keepalive_wake s | _ \<Rightarrow> s)"
| "step (Flushed outcome skip) s =
     (case keepalive s of
        Sending response_id used seen disconnected w \<Rightarrow>
          keepalive_drained outcome skip response_id used seen disconnected w s
      | _ \<Rightarrow> s)"

definition exec :: "event list \<Rightarrow> server \<Rightarrow> server" where
  "exec evs s = foldl (\<lambda>s e. step e s) s evs"

text \<open>
  \<^verbatim>\<open>TCPServer.run\<close> of a fresh instance: the log file is opened with mode \<^verbatim>\<open>'w'\<close>, then
  the listener and \<^verbatim>\<open>keepalive_task\<close> run until the timeout.
\<close>

definition server_run :: "string list \<Rightarrow> event list \<Rightarrow> server" where
  "server_run file evs = exec evs (truncate_log (TCPServer_init file))"




section \<open>The client (\<^verbatim>\<open>client.py\<close>)\<close>

text \<open>The pair \<^verbatim>\<open>(reader, writer)\<close> that \<^verbatim>\<open>asyncio.open_connection\<close> returns is named by a number.\<close>

type_synonym conn = nat

text \<open>
  What the client asks of the outside world, in order; durations in milliseconds.
  \<open>ReadUntil\<close> is \<^verbatim>\<open>reader.readuntil(b"\n")\<close>, under \<^verbatim>\<open>asyncio.wait_for\<close> when a timeout
  is given; \<open>Close\<close> is \<^verbatim>\<open>writer.close()\<close> with \<^verbatim>\<open>wait_closed()\<close>.
\<close>

datatype action =
    Write conn string
  | ReadUntil "nat option"
  | Close conn
  | OpenConnection
  | Sleep nat

text \<open>
  The fields of \<^verbatim>\<open>TCPClient\<close>, then what the process did: \<open>trace\<close> lists what it asked of
  the outside world, \<open>receiver_exn\<close> is the exception that ended the task of
  \<^verbatim>\<open>message_receiver\<close>, if any.
\<close>

record client = role +
  client_id :: int
  request_counter :: int
  reader :: "conn option"
  writer :: "conn option"
  trace :: "action list"
  receiver_exn :: "exn option"

text \<open>\<^verbatim>\<open>TCPClient.__init__\<close>; \<open>file\<close> is what the file at the log path holds.\<close>

definition TCPClient_init :: "int \<Rightarrow> string list \<Rightarrow> client" where
  "TCPClient_init ident file =
     \<lparr>log_file = file, client_id = ident, request_counter = 0, reader = None,
      writer = None, trace = [], receiver_exn = None\<rparr>"

definition do_action :: "action \<Rightarrow> client \<Rightarrow> client" where
  "do_action a c = c\<lparr>trace := trace c @ [a]\<rparr>"

text \<open>The request line \<^verbatim>\<open>f"[{self.request_counter}] PING"\<close>.\<close>

definition ping_text :: "int \<Rightarrow> string" where
  "ping_text n = ''['' @ str_int n @ ''] PING''"

text \<open>
  The marker of a timeout: the Russian word for "timeout" in parentheses, as the bytes
  of its UTF-8 encoding.
\<close>

definition timeout_marker :: string where
  "timeout_marker =
     [CHR 0x28, CHR 0xD1, CHR 0x82, CHR 0xD0, CHR 0xB0, CHR 0xD0, CHR 0xB9, CHR 0xD0,
      CHR 0xBC, CHR 0xD0, CHR 0xB0, CHR 0xD1, CHR 0x83, CHR 0xD1, CHR 0x82, CHR 0x29]"

text \<open>\<^verbatim>\<open>TCPClient._write_log\<close>; \<open>date_str\<close> is what \<^verbatim>\<open>_format_date()\<close> returns at the call.\<close>

definition client_write_log ::
  "string \<Rightarrow> string \<Rightarrow> string \<Rightarrow> string \<Rightarrow> string \<Rightarrow> client \<Rightarrow> client" where
  "client_write_log date_str send_time request_msg receive_time response_msg c =
     (let log_line =
        (if request_msg = [] then date_str @ '';;;'' @ receive_time @ '';'' @ response_msg
         else if response_msg = timeout_marker
           then date_str @ '';'' @ send_time @ '';'' @ request_msg @ '';'' @ receive_time
                  @ '';'' @ timeout_marker
           else date_str @ '';'' @ send_time @ '';'' @ request_msg @ '';'' @ receive_time
                  @ '';'' @ response_msg)
      in append_log log_line c)"

text \<open>The outcome of \<^verbatim>\<open>asyncio.open_connection\<close>.\<close>

datatype connect_result = Connected conn | Fails exn

text \<open>
  \<^verbatim>\<open>TCPClient.connect\<close>: \<open>Inr\<close> is the value returned, \<open>Inl\<close> an exception other than
  \<^verbatim>\<open>ConnectionError\<close>, which \<^verbatim>\<open>connect\<close> does not catch.
\<close>

definition connect :: "connect_result \<Rightarrow> client \<Rightarrow> (exn + bool) \<times> client" where
  "connect r c =
     (let c1 = do_action OpenConnection c
      in case r of
           Connected h \<Rightarrow> (Inr True, c1\<lparr>reader := Some h, writer := Some h\<rparr>)
         | Fails e \<Rightarrow> if e = ConnectionError then (Inr False, c1) else (Inl e, c1))"

definition max_retries :: nat where
  "max_retries = 5"

text \<open>
  The \<^verbatim>\<open>while\<close> loop of \<^verbatim>\<open>TCPClient.reconnect\<close>. \<open>attempt k\<close> is the outcome of
  \<^verbatim>\<open>open_connection\<close> after \<open>k\<close> failures.
\<close>

function reconnect_loop ::
  "(nat \<Rightarrow> connect_result) \<Rightarrow> bool \<Rightarrow> nat \<Rightarrow> client \<Rightarrow> bool \<times> client" where
  "reconnect_loop attempt success retries c =
     (if \<not> success \<and> retries < max_retries
      then (case connect (attempt retries) c of
              (Inr ok, c1) \<Rightarrow>
                if \<not> ok then reconnect_loop attempt ok (retries + 1) (do_action (Sleep 1000) c1)
                else reconnect_loop attempt ok retries c1
            | (Inl e, c1) \<Rightarrow>
                reconnect_loop attempt success (retries + 1) (do_action (Sleep 1000) c1))
      else (success, c))"
  by pat_completeness auto
termination
  by (relation "measure (\<lambda>(attempt, success, retries, c).
         (if success then 0 else 1) + (max_retries - retries))") auto

declare reconnect_loop.simps [simp del]

text \<open>
  \<^verbatim>\<open>TCPClient.reconnect\<close>. \<open>closing\<close> is the outcome of \<^verbatim>\<open>await self.writer.wait_closed()\<close>,
  which returns or raises the error that broke the connection; \<open>Inl\<close> is an exception
  that leaves the method, \<open>Inr\<close> the value returned.
\<close>

definition reconnect ::
  "exn option \<Rightarrow> (nat \<Rightarrow> connect_result) \<Rightarrow> client \<Rightarrow> (exn + bool) \<times> client" where
  "reconnect closing attempt c =
     (case writer c of
        None \<Rightarrow> (case reconnect_loop attempt False 0 c of (ok, c1) \<Rightarrow> (Inr ok, c1))
      | Some h \<Rightarrow>
          (let c1 = do_action (Close h) c
           in case closing of
                Some e \<Rightarrow> (Inl e, c1)
              | None \<Rightarrow>
                  (case reconnect_loop attempt False 0 c1 of (ok, c2) \<Rightarrow> (Inr ok, c2))))"

text \<open>
  \<^verbatim>\<open>await self.reconnect()\<close> as a statement of an \<^verbatim>\<open>except\<close> block: the value returned is
  dropped, an exception goes on out of the block.
\<close>

definition await_reconnect ::
  "exn option \<Rightarrow> (nat \<Rightarrow> connect_result) \<Rightarrow> client \<Rightarrow> exn option \<times> client" where
  "await_reconnect closing attempt c =
     (case reconnect closing attempt c of
        (Inl e, c1) \<Rightarrow> (Some e, c1)
      | (Inr ok, c1) \<Rightarrow> (None, c1))"

text \<open>
  What the outside world answers during one \<^verbatim>\<open>send_ping\<close>: the clock readings, the
  exception of \<^verbatim>\<open>drain\<close> if any, the outcome of the wait of 2.0 seconds and of the wait
  of 0.1 seconds that follows a keepalive, and, should \<^verbatim>\<open>reconnect\<close> run, the outcome of
  \<^verbatim>\<open>wait_closed\<close> and the outcomes of \<^verbatim>\<open>open_connection\<close>.
\<close>

record ping_env =
  send_time :: string
  drain :: "exn option"
  read1 :: read_result
  receive_time1 :: string
  date_keepalive :: string
  read2 :: read_result
  receive_time2 :: string
  date_entry :: string
  wait_closed :: "exn option"
  connects :: "nat \<Rightarrow> connect_result"

text \<open>
  \<^verbatim>\<open>TCPClient.send_ping\<close>, in three pieces. In each the first component of the result is
  the exception that leaves the method, if any.

  Lines 125 to 144, reached when the line read contains \<^verbatim>\<open>keepalive\<close>: the line is
  logged as a push, a second read waits 0.1 seconds, and the request is logged with
  \<^verbatim>\<open>response_msg\<close> as it then stands.
\<close>

definition after_keepalive ::
  "ping_env \<Rightarrow> string \<Rightarrow> string \<Rightarrow> client \<Rightarrow> exn option \<times> client" where
  "after_keepalive env request_msg response_msg c =
     (let c1 = client_write_log (date_keepalive env) [] [] (receive_time1 env) response_msg c;
          c2 = do_action (ReadUntil (Some 100)) c1
      in case read2 env of
           Raises e \<Rightarrow>
             if e = TimeoutError \<or> e = IncompleteReadError
             then (None, client_write_log (date_entry env) (send_time env) request_msg
                           (receive_time1 env) response_msg c2)
             else if e = ConnectionError then await_reconnect (wait_closed env) (connects env) c2
             else (Some e, c2)
         | Data data \<Rightarrow>
             (case decode_ascii data of
                None \<Rightarrow> (Some UnicodeDecodeError, c2)
              | Some text \<Rightarrow>
                  (None, client_write_log (date_entry env) (send_time env) request_msg
                           (receive_time2 env) (strip text) c2)))"

text \<open>Lines 115 to 152: the wait of 2.0 seconds for the reply and what follows it.\<close>

definition wait_reply :: "ping_env \<Rightarrow> string \<Rightarrow> client \<Rightarrow> exn option \<times> client" where
  "wait_reply env request_msg c =
     (let c1 = do_action (ReadUntil (Some 2000)) c
      in case read1 env of
           Raises e \<Rightarrow>
             if e = TimeoutError
             then (None, client_write_log (date_entry env) (send_time env) request_msg
                           (receive_time1 env) timeout_marker c1)
             else if e = ConnectionError then await_reconnect (wait_closed env) (connects env) c1
             else (Some e, c1)
         | Data data \<Rightarrow>
             (case decode_ascii data of
                None \<Rightarrow> (Some UnicodeDecodeError, c1)
              | Some text \<Rightarrow>
                  (let response_msg = strip text
                   in if contains ''keepalive'' response_msg
                      then after_keepalive env request_msg response_msg c1
                      else (None, client_write_log (date_entry env) (send_time env)
                                    request_msg (receive_time1 env) response_msg c1))))"

text \<open>Lines 96 to 157.\<close>

definition send_ping :: "ping_env \<Rightarrow> client \<Rightarrow> exn option \<times> client" where
  "send_ping env c =
     (case writer c of
        None \<Rightarrow> (None, c)
      | Some w \<Rightarrow>
          (let request_msg = ping_text (request_counter c);
               c1 = do_action (Write w request_msg) c
           in case drain env of
                Some e \<Rightarrow>
                  if e = ConnectionError then await_reconnect (wait_closed env) (connects env) c1
                  else (Some e, c1)
              | None \<Rightarrow>
                  wait_reply env request_msg
                    (c1\<lparr>request_counter := request_counter c1 + 1\<rparr>)))"

text \<open>
  One turn of the loop of \<^verbatim>\<open>TCPClient.message_receiver\<close>: the outcome of the read, the
  clock readings and, should \<^verbatim>\<open>reconnect\<close> run, the outcome of \<^verbatim>\<open>wait_closed\<close> and the
  outcomes of \<^verbatim>\<open>open_connection\<close>. \<^verbatim>\<open>except Exception\<close> ends the turn with a sleep of 0.1
  seconds; an exception of \<^verbatim>\<open>reconnect\<close>, raised inside a handler, leaves the coroutine.
\<close>

definition message_receiver ::
  "read_result \<Rightarrow> string \<Rightarrow> string \<Rightarrow> exn option \<Rightarrow> (nat \<Rightarrow> connect_result) \<Rightarrow> client
     \<Rightarrow> exn option \<times> client" where
  "message_receiver rd receive_time date_str closing attempt c =
     (if reader c = None then (None, do_action (Sleep 100) c)
      else (let c1 = do_action (ReadUntil None) c
            in case rd of
                 Raises e \<Rightarrow>
                   if e = IncompleteReadError \<or> e = ConnectionError
                   then await_reconnect closing attempt c1
                   else (None, do_action (Sleep 100) c1)
               | Data data \<Rightarrow>
                   (case decode_ascii data of
                      None \<Rightarrow> (None, do_action (Sleep 100) c1)
                    | Some text \<Rightarrow>
                        (let response_msg = strip text
                         in if contains ''keepalive'' response_msg
                            then (None, client_write_log date_str [] [] receive_time
                                          response_msg c1)
                            else (None, c1)))))"

subsection \<open>The client process as a sequence of events\<close>

text \<open>
  \<open>Ping\<close> is one turn of the loop of \<^verbatim>\<open>TCPClient.run\<close>: \<^verbatim>\<open>send_ping\<close>, then the sleep of
  \<open>delay\<close> milliseconds drawn by \<^verbatim>\<open>random.randint(300, 3000)\<close>. \<open>Receive\<close> is one turn of
  \<^verbatim>\<open>message_receiver\<close>, as long as no exception has ended its task; the turns of the
  receiver are taken between those of the sender, not inside one.
\<close>

datatype client_event =
    Ping ping_env nat
  | Receive read_result string string "exn option" "nat \<Rightarrow> connect_result"

fun client_step :: "client_event \<Rightarrow> client \<Rightarrow> exn option \<times> client" where
  "client_step (Ping env delay) c =
     (case send_ping env c of
        (None, c1) \<Rightarrow> (None, do_action (Sleep delay) c1)
      | (Some e, c1) \<Rightarrow> (Some e, c1))"
| "client_step (Receive rd receive_time date_str closing attempt) c =
     (if receiver_exn c \<noteq> None then (None, c)
      else (case message_receiver rd receive_time date_str closing attempt c of
              (raised, c1) \<Rightarrow> (None, c1\<lparr>receiver_exn := raised\<rparr>)))"

text \<open>The events in order, up to the first exception that leaves \<^verbatim>\<open>send_ping\<close>.\<close>

fun client_exec :: "client_event list \<Rightarrow> client \<Rightarrow> exn option \<times> client" where
  "client_exec [] c = (None, c)"
| "client_exec (ev # evs) c =
     (case client_step ev c of
        (None, c1) \<Rightarrow> client_exec evs c1
      | (Some e, c1) \<Rightarrow> (Some e, c1))"

text \<open>
  The \<^verbatim>\<open>finally\<close> block of \<^verbatim>\<open>TCPClient.run\<close>; \<open>raised\<close> is the exception on its way out of
  the loop, if any, \<open>closing\<close> the outcome of \<^verbatim>\<open>wait_closed\<close>, whose exception takes the
  place of \<open>raised\<close>.
\<close>

definition run_finally :: "exn option \<Rightarrow> exn option \<Rightarrow> client \<Rightarrow> exn option \<times> client" where
  "run_finally raised closing c =
     (case writer c of
        None \<Rightarrow> (raised, c)
      | Some h \<Rightarrow> (case closing of None \<Rightarrow> raised | Some e \<Rightarrow> Some e, do_action (Close h) c))"

text \<open>
  \<^verbatim>\<open>TCPClient.run\<close> of a fresh instance: the log file is opened with mode \<^verbatim>\<open>'w'\<close>, then
  the first \<^verbatim>\<open>connect\<close>, whose outcome is \<open>first\<close>, then the loop, then the \<^verbatim>\<open>finally\<close>
  block.
\<close>

definition client_run ::
  "int \<Rightarrow> string list \<Rightarrow> connect_result \<Rightarrow> client_event list \<Rightarrow> exn option
     \<Rightarrow> exn option \<times> client" where
  "client_run ident file first evs closing =
     (case connect first (truncate_log (TCPClient_init ident file)) of
        (Inl e, c1) \<Rightarrow> (Some e, c1)
      | (Inr ok, c1) \<Rightarrow>
          if \<not> ok then (None, c1)
          else (case client_exec evs c1 of (raised, c2) \<Rightarrow> run_finally raised closing c2))"

text \<open>The requests written, each with the connection it was written to.\<close>

fun written :: "action list \<Rightarrow> (conn \<times> string) list" where
  "written [] = []"
| "written (Write h text # as) = (h, text) # written as"
| "written (a # as) = written as"

text \<open>
  The request numbers of the pings of a run, by the count of the sends before that
  succeeded: a ping whose \<^verbatim>\<open>drain\<close> returns moves the number on by one.
\<close>

fun numbers :: "int \<Rightarrow> client_event list \<Rightarrow> int list" where
  "numbers n [] = []"
| "numbers n (Ping env delay # evs) = n # numbers (if drain env = None then n + 1 else n) evs"
| "numbers n (Receive rd receive_time date_str closing attempt # evs) = numbers n evs"

section \<open>Concrete runs\<close>

text \<open>A server that refuses every connection, and one that accepts the next one as \<open>h\<close>.\<close>

definition refuse_all :: "nat \<Rightarrow> connect_result" where
  "refuse_all k = Fails ConnectionError"

definition reconnects_to :: "conn \<Rightarrow> nat \<Rightarrow> connect_result" where
  "reconnects_to h k = Connected h"

text \<open>A cycle whose reply arrives in time.\<close>

definition reply_in_time :: ping_env where
  "reply_in_time =
     \<lparr>send_time = ''10:00:00.000'', drain = None,
      read1 = Data ''[0/0] PONG (1)\<newline>'', receive_time1 = ''10:00:00.500'',
      date_keepalive = ''2024-01-01'', read2 = Raises TimeoutError,
      receive_time2 = ''10:00:00.600'', date_entry = ''2024-01-01'',
      wait_closed = None, connects = refuse_all\<rparr>"

text \<open>A cycle in which a keepalive arrives first and nothing in the 0.1 seconds after it.\<close>

definition keepalive_then_silence :: ping_env where
  "keepalive_then_silence =
     reply_in_time\<lparr>read1 := Data ''[5] keepalive\<newline>'',
                    receive_time1 := ''10:00:00.050''\<rparr>"

text \<open>
  A cycle whose \<^verbatim>\<open>drain\<close> raises \<^verbatim>\<open>ConnectionError\<close>, while the server can be reached
  again and would accept the client as connection 2: with a \<^verbatim>\<open>wait_closed\<close> that returns,
  and, after a reset by the peer, with one that raises the error of the reset again.
\<close>

definition send_fails_then_back :: ping_env where
  "send_fails_then_back =
     reply_in_time\<lparr>drain := Some ConnectionError, connects := reconnects_to 2\<rparr>"

definition reset_by_peer :: ping_env where
  "reset_by_peer = send_fails_then_back\<lparr>wait_closed := Some ConnectionError\<rparr>"

text \<open>A cycle during whose wait for the reply the server closes the connection.\<close>

definition closed_by_peer :: ping_env where
  "closed_by_peer = reply_in_time\<lparr>read1 := Raises IncompleteReadError\<rparr>"

text \<open>A client just connected as connection 1, and a server with one client.\<close>

definition connected_client :: client where
  "connected_client = snd (connect (Connected 1) (truncate_log (TCPClient_init 1 [])))"

definition one_client :: server where
  "one_client = server_run [] [Accept 1]"

text \<open>
  Two clients connect; a keepalive round begins, and while it waits in the \<^verbatim>\<open>drain\<close> of its
  first copy, client 2 is answered; then the round writes its second copy.
\<close>

definition reply_inside_keepalive_round :: "event list" where
  "reply_inside_keepalive_round =
     [Accept 1, Accept 2,
      Recv 2 (Data ''[0] PING\<newline>'') ''10:00:00.000'' (1 / 2) ''2024-01-01'',
      Tick, Wake 2 ''10:00:00.400'', Flushed None 0, Drained 2 None ''2024-01-01'',
      Flushed None 0]"

text \<open>
  A request is answered, the next send fails and the client reconnects, a third request
  is sent on the new connection.
\<close>

definition reconnect_run :: "client_event list" where
  "reconnect_run =
     [Ping reply_in_time 300, Ping send_fails_then_back 300, Ping reply_in_time 300]"

text \<open>
  The connection of client 1 breaks while its handler sleeps before replying; a keepalive
  round runs in that time, then the handler wakes.
\<close>

definition broken_during_delay :: "event list" where
  "broken_during_delay =
     [Accept 1,
      Recv 1 (Data ''[0] PING\<newline>'') ''10:00:00.000'' (1 / 2) ''2024-01-01'',
      Tick, Flushed (Some ConnectionError) 0,
      Wake 1 ''10:00:00.400'', Drained 1 (Some ConnectionError) ''2024-01-01'']"

text \<open>A line with a byte above 127, alone and after a request number in brackets.\<close>

definition not_ascii :: bytes where
  "not_ascii = [CHR 0xFF, CHR 0x0A]"

definition number_then_not_ascii :: bytes where
  "number_then_not_ascii = ''[7] '' @ [CHR 0xFF, CHR 0x0A]"

text \<open>
  One client sends a line that is not a request but carries a number after its first
  character, and one that carries none.
\<close>

definition number_without_format :: "event list" where
  "number_without_format =
     [Accept 1,
      Recv 1 (Data ''X 7 ]hello\<newline>'') ''10:00:00.000'' (1 / 2) ''2024-01-01'',
      Wake 1 ''10:00:00.400'', Drained 1 None ''2024-01-01'']"

definition no_number_dropped :: "event list" where
  "no_number_dropped =
     [Accept 1, Recv 1 (Data ''hello\<newline>'') ''10:00:00.000'' 0 ''2024-01-01'']"

text \<open>One client sends a line with a byte above 127; its handler ends.\<close>

definition not_ascii_dropped :: "event list" where
  "not_ascii_dropped =
     [Accept 1, Recv 1 (Data not_ascii) ''10:00:00.000'' 0 ''2024-01-01'', Closed 1 None]"

definition number_then_not_ascii_kept :: "event list" where
  "number_then_not_ascii_kept =
     [Accept 1, Recv 1 (Data number_then_not_ascii) ''10:00:00.000'' (1 / 2) ''2024-01-01'',
      Closed 1 None]"

section \<open>Facts about the Python values\<close>

lemma py_split_takeWhile: "\<exists>ps. py_split sep s = takeWhile (\<lambda>c. c \<noteq> sep) s # ps"
  by (induction s) auto

lemma parse_request_eq: "parse_request message = py_int (bracket_text message)"
proof -
  obtain ps where "py_split CHR '']'' (drop 1 message)
      = takeWhile (\<lambda>c. c \<noteq> CHR '']'') (drop 1 message) # ps"
    using py_split_takeWhile by blast
  then show ?thesis by (simp add: parse_request_def bracket_text_def)
qed

text \<open>
  A line of the request format, of no more characters than \<^verbatim>\<open>int\<close> accepts digits, passes
  the parse of the server.
\<close>

lemma is_digit_not_special:
  assumes "is_digit c"
  shows "\<not> c_isspace c" "c \<noteq> CHR ''-''" "c \<noteq> CHR ''+''" "c \<noteq> CHR ''_''" "c \<noteq> CHR '']''"
  using assms by (auto simp add: is_digit_def c_isspace_def Let_def)

lemma double_underscore_has_underscore: "double_underscore cs \<Longrightarrow> CHR ''_'' \<in> set cs"
  by (induction cs rule: double_underscore.induct) auto

lemma py_int_digits:
  assumes ds: "ds \<noteq> []" and dig: "\<forall>c\<in>set ds. is_digit c"
      and len: "length ds \<le> int_max_str_digits"
  shows "py_int ds = Some (int (digits_value ds))"
proof -
  have h: "is_digit (hd ds)" using ds dig by simp
  have l: "is_digit (last ds)" using ds dig by simp
  have t: "dropWhile c_isspace ds = ds"
    using ds h is_digit_not_special(1) by (cases ds) auto
  have b: "takeWhile digit_or_underscore ds = ds"
    using dig by (simp add: digit_or_underscore_def)
  have r: "dropWhile digit_or_underscore ds = []"
    using dig by (simp add: digit_or_underscore_def)
  have f: "filter is_digit ds = ds" using dig by simp
  have u: "CHR ''_'' \<notin> set ds" using dig is_digit_not_special(4) by blast
  then have d: "\<not> double_underscore ds" using double_underscore_has_underscore by blast
  show ?thesis
    unfolding py_int_def Let_def t
    using ds h l d len is_digit_not_special(2,3,4) [OF h] is_digit_not_special(4) [OF l]
    by (simp add: b r f)
qed

lemma request_format_parses:
  assumes "request_format m" and "length m \<le> int_max_str_digits"
  shows "\<exists>n. py_int (bracket_text m) = Some n"
proof -
  define ds where "ds = takeWhile is_digit (drop 1 m)"
  have ne: "ds \<noteq> []" and rest: "drop (1 + length ds) m = ''] PING''"
    using assms(1) by (simp_all add: request_format_def Let_def ds_def)
  have "drop 1 m = ds @ dropWhile is_digit (drop 1 m)" by (simp add: ds_def)
  also have "dropWhile is_digit (drop 1 m) = drop (length ds) (drop 1 m)"
    by (simp add: ds_def dropWhile_eq_drop)
  also have "\<dots> = ''] PING''" using rest by (simp add: add.commute)
  finally have m: "drop 1 m = ds @ ''] PING''" .
  have dig: "\<forall>c\<in>set ds. is_digit c" unfolding ds_def by (auto dest: set_takeWhileD)
  then have "\<forall>c\<in>set ds. c \<noteq> CHR '']''" using is_digit_not_special(5) by blast
  then have "takeWhile (\<lambda>c. c \<noteq> CHR '']'') (ds @ ''] PING'') = ds"
    by (simp add: takeWhile_append2)
  then have bt: "bracket_text m = ds" unfolding bracket_text_def m .
  have "length ds \<le> length (drop 1 m)" unfolding ds_def by (rule length_takeWhile_le)
  then have "length ds \<le> int_max_str_digits" using assms(2) by simp
  then show ?thesis using py_int_digits [OF ne dig] bt by simp
qed

lemma random_threshold: "(random_value k < float_0_1) = (random_value k < 1 / 10)"
proof -
  have a: "(random_value k < float_0_1) = (4 * k < 3602879701896397)"
  proof -
    have "(random_value k < float_0_1) = (real k * 2 ^ 55 < 3602879701896397 * 2 ^ 53)"
      unfolding random_value_def float_0_1_def by (simp add: field_simps)
    also have "\<dots> = (real (k * 2 ^ 55) < real (3602879701896397 * 2 ^ 53))" by simp
    also have "\<dots> = (k * 2 ^ 55 < 3602879701896397 * 2 ^ 53)" by (simp only: of_nat_less_iff)
    also have "\<dots> = (4 * k < 3602879701896397)" by simp
    finally show ?thesis .
  qed
  have b: "(random_value k < 1 / 10) = (10 * k < 9007199254740992)"
  proof -
    have "(random_value k < 1 / 10) = (real k * 10 < 2 ^ 53)"
      unfolding random_value_def by (simp add: field_simps)
    also have "\<dots> = (real (k * 10) < real (2 ^ 53))" by simp
    also have "\<dots> = (k * 10 < 2 ^ 53)" by (simp only: of_nat_less_iff)
    also have "\<dots> = (10 * k < 9007199254740992)" by (simp add: mult.commute)
    finally show ?thesis .
  qed
  show ?thesis unfolding a b by arith
qed

section \<open>Facts about the server\<close>

lemma wire_handle_finally [simp]: "wire (handle_finally w p s) = wire s"
  by (simp add: handle_finally_def split: sum.splits)

lemma wire_handle_raise [simp]: "wire (handle_raise w e s) = wire s"
  by (simp add: handle_raise_def)

lemma wire_handle_closed [simp]: "wire (handle_closed w p outcome s) = wire s"
  by (simp add: handle_closed_def)

lemma wire_write_log [simp]: "wire (write_log d t m r s) = wire s"
  by (simp add: write_log_def append_log_def)

lemma wire_handle_accept [simp]: "wire (handle_accept w s) = wire s"
  by (simp add: handle_accept_def get_next_client_id_def)

lemma wire_handle_recv [simp]: "wire (handle_recv w cid rd t rnd d s) = wire s"
  by (simp add: handle_recv_def Let_def split: read_result.splits option.splits)

lemma wire_handle_drained [simp]: "wire (handle_drained w cid rt m t rm outcome d s) = wire s"
  by (simp add: handle_drained_def split: option.splits)


lemma counter_handle_finally [simp]:
  "response_counter (handle_finally w p s) = response_counter s"
  by (simp add: handle_finally_def split: sum.splits)

lemma counter_handle_raise [simp]: "response_counter (handle_raise w e s) = response_counter s"
  by (simp add: handle_raise_def)

lemma counter_handle_closed [simp]:
  "response_counter (handle_closed w p outcome s) = response_counter s"
  by (simp add: handle_closed_def)

lemma counter_write_log [simp]: "response_counter (write_log d t m r s) = response_counter s"
  by (simp add: write_log_def append_log_def)

lemma counter_handle_accept [simp]: "response_counter (handle_accept w s) = response_counter s"
  by (simp add: handle_accept_def get_next_client_id_def)

lemma counter_handle_recv [simp]:
  "response_counter (handle_recv w cid rd t rnd d s) = response_counter s"
  by (simp add: handle_recv_def Let_def split: read_result.splits option.splits)

lemma counter_handle_drained [simp]:
  "response_counter (handle_drained w cid rt m t rm outcome d s) = response_counter s"
  by (simp add: handle_drained_def split: option.splits)


lemma keepalive_handle_finally [simp]: "keepalive (handle_finally w p s) = keepalive s"
  by (simp add: handle_finally_def split: sum.splits)

lemma keepalive_handle_raise [simp]: "keepalive (handle_raise w e s) = keepalive s"
  by (simp add: handle_raise_def)

lemma keepalive_handle_closed [simp]: "keepalive (handle_closed w p outcome s) = keepalive s"
  by (simp add: handle_closed_def)

lemma keepalive_write_log [simp]: "keepalive (write_log d t m r s) = keepalive s"
  by (simp add: write_log_def append_log_def)

lemma keepalive_handle_accept [simp]: "keepalive (handle_accept w s) = keepalive s"
  by (simp add: handle_accept_def get_next_client_id_def)

lemma keepalive_handle_recv [simp]: "keepalive (handle_recv w cid rd t rnd d s) = keepalive s"
  by (simp add: handle_recv_def Let_def split: read_result.splits option.splits)

lemma keepalive_handle_drained [simp]:
  "keepalive (handle_drained w cid rt m t rm outcome d s) = keepalive s"
  by (simp add: handle_drained_def split: option.splits)

lemma keepalive_handle_wake [simp]: "keepalive (handle_wake w cid rt m n t s) = keepalive s"
  by (simp add: handle_wake_def get_next_response_id_def Let_def)


lemma counter_keepalive_next [simp]:
  "response_counter (keepalive_next rid used seen disc skip s) = response_counter s"
  by (simp add: keepalive_next_def split: list.splits prod.splits option.splits)













lemma log_handle_finally [simp]: "log_file (handle_finally w p s) = log_file s"
  by (simp add: handle_finally_def split: sum.splits)

lemma log_handle_raise [simp]: "log_file (handle_raise w e s) = log_file s"
  by (simp add: handle_raise_def)

lemma log_handle_closed [simp]: "log_file (handle_closed w p outcome s) = log_file s"
  by (simp add: handle_closed_def)

lemma log_handle_accept [simp]: "log_file (handle_accept w s) = log_file s"
  by (simp add: handle_accept_def get_next_client_id_def)

lemma log_handle_wake [simp]: "log_file (handle_wake w cid rt m n t s) = log_file s"
  by (simp add: handle_wake_def get_next_response_id_def Let_def)

lemma log_keepalive_next [simp]:
  "log_file (keepalive_next rid used seen disc skip s) = log_file s"
  by (simp add: keepalive_next_def split: list.splits prod.splits option.splits)

lemma log_keepalive_wake [simp]: "log_file (keepalive_wake s) = log_file s"
  by (simp add: keepalive_wake_def get_next_response_id_def Let_def)

lemma log_keepalive_drained [simp]:
  "log_file (keepalive_drained outcome skip rid used seen disc w s) = log_file s"
  by (simp add: keepalive_drained_def split: option.splits)

lemma log_handle_recv:
  "prefix l (log_file s) \<Longrightarrow> prefix l (log_file (handle_recv w cid rd t rnd d s))"
  by (simp add: handle_recv_def write_log_def append_log_def Let_def
      split: read_result.splits option.splits)

lemma log_handle_drained:
  "prefix l (log_file s) \<Longrightarrow>
   prefix l (log_file (handle_drained w cid rt m t rm outcome d s))"
  by (simp add: handle_drained_def write_log_def append_log_def split: option.splits)

lemma log_step: "prefix l (log_file s) \<Longrightarrow> prefix l (log_file (step e s))"
  by (cases e)
     (auto simp add: log_handle_recv log_handle_drained
       split: option.splits hstate.splits kstate.splits)

lemma log_exec: "prefix l (log_file s) \<Longrightarrow> prefix l (log_file (exec evs s))"
  unfolding exec_def by (induction evs arbitrary: s) (simp_all add: log_step)

lemma one_client_handler: "map_of (handlers one_client) 1 = Some (Reading 1)"
  unfolding one_client_def by code_simp

section \<open>Facts about the client\<close>

lemma do_action_simps [simp]:
  "trace (do_action a c) = trace c @ [a]"
  "log_file (do_action a c) = log_file c"
  "request_counter (do_action a c) = request_counter c"
  "writer (do_action a c) = writer c"
  "reader (do_action a c) = reader c"
  "receiver_exn (do_action a c) = receiver_exn c"
  by (simp_all add: do_action_def)

lemma client_write_log_simps [simp]:
  "trace (client_write_log d st rq rt rs c) = trace c"
  "request_counter (client_write_log d st rq rt rs c) = request_counter c"
  "writer (client_write_log d st rq rt rs c) = writer c"
  "reader (client_write_log d st rq rt rs c) = reader c"
  "receiver_exn (client_write_log d st rq rt rs c) = receiver_exn c"
  by (simp_all add: client_write_log_def append_log_def Let_def)

lemma log_client_write_log: "\<exists>l. log_file (client_write_log d st rq rt rs c) = log_file c @ [l]"
  by (simp add: client_write_log_def append_log_def Let_def)

lemma written_append [simp]: "written (xs @ ys) = written xs @ written ys"
  by (induction xs rule: written.induct) simp_all

lemma written_attempts [simp]: "written (concat (replicate n [OpenConnection, Sleep ms])) = []"
  by (induction n) simp_all

lemma reconnect_loop_stop:
  "reconnect_loop attempt True retries c = (True, c)"
  by (simp add: reconnect_loop.simps)

lemma reconnect_loop_spec:
  "retries \<le> max_retries \<Longrightarrow>
   \<exists>n. trace (snd (reconnect_loop attempt False retries c)) =
          trace c @ concat (replicate n [OpenConnection, Sleep 1000])
            @ (if fst (reconnect_loop attempt False retries c) then [OpenConnection] else []) \<and>
        (\<forall>k<n. \<exists>e. attempt (retries + k) = Fails e) \<and>
        (if fst (reconnect_loop attempt False retries c)
         then retries + n < max_retries \<and>
              (\<exists>h. attempt (retries + n) = Connected h \<and>
                   writer (snd (reconnect_loop attempt False retries c)) = Some h \<and>
                   reader (snd (reconnect_loop attempt False retries c)) = Some h)
         else retries + n = max_retries \<and>
              writer (snd (reconnect_loop attempt False retries c)) = writer c \<and>
              reader (snd (reconnect_loop attempt False retries c)) = reader c) \<and>
        request_counter (snd (reconnect_loop attempt False retries c)) = request_counter c \<and>
        log_file (snd (reconnect_loop attempt False retries c)) = log_file c"
proof (induction "max_retries - retries" arbitrary: retries c)
  case 0
  then have "retries = max_retries" by simp
  then have "reconnect_loop attempt False retries c = (False, c)"
    by (simp add: reconnect_loop.simps)
  then show ?case using \<open>retries = max_retries\<close> by (intro exI [of _ 0]) simp
next
  case (Suc m)
  then have lt: "retries < max_retries" by simp
  show ?case
  proof (cases "attempt retries")
    case (Connected h)
    have "reconnect_loop attempt False retries c =
            (True, (do_action OpenConnection c)\<lparr>reader := Some h, writer := Some h\<rparr>)"
      using lt Connected
      by (subst reconnect_loop.simps) (simp add: connect_def Let_def reconnect_loop_stop)
    then show ?thesis using lt Connected by (intro exI [of _ 0]) simp
  next
    case (Fails e)
    let ?c1 = "do_action (Sleep 1000) (do_action OpenConnection c)"
    define res where "res = reconnect_loop attempt False (retries + 1) ?c1"
    have step: "reconnect_loop attempt False retries c = res"
      unfolding res_def using lt Fails
      by (subst reconnect_loop.simps) (simp add: connect_def Let_def)
    have m: "m = max_retries - (retries + 1)" using Suc.hyps(2) by simp
    have le: "retries + 1 \<le> max_retries" using lt by simp
    from Suc.hyps(1) [OF m le, of ?c1] obtain n where n:
      "trace (snd res) =
          trace ?c1 @ concat (replicate n [OpenConnection, Sleep 1000])
            @ (if fst res then [OpenConnection] else [])"
      "\<forall>k<n. \<exists>e. attempt (retries + 1 + k) = Fails e"
      "if fst res
         then retries + 1 + n < max_retries \<and>
              (\<exists>h. attempt (retries + 1 + n) = Connected h \<and>
                   writer (snd res) = Some h \<and> reader (snd res) = Some h)
         else retries + 1 + n = max_retries \<and>
              writer (snd res) = writer ?c1 \<and> reader (snd res) = reader ?c1"
      "request_counter (snd res) = request_counter ?c1"
      "log_file (snd res) = log_file ?c1"
      unfolding res_def by blast
    have fails: "\<forall>k<Suc n. \<exists>e. attempt (retries + k) = Fails e"
    proof (intro allI impI)
      fix k assume "k < Suc n"
      show "\<exists>e. attempt (retries + k) = Fails e"
      proof (cases k)
        case 0
        then show ?thesis using Fails by simp
      next
        case (Suc j)
        then have "j < n" using \<open>k < Suc n\<close> by simp
        then show ?thesis using n(2) Suc by simp
      qed
    qed
    have t: "trace (snd res) =
          trace c @ concat (replicate (Suc n) [OpenConnection, Sleep 1000])
            @ (if fst res then [OpenConnection] else [])"
      using n(1) by simp
    have w: "if fst res
         then retries + Suc n < max_retries \<and>
              (\<exists>h. attempt (retries + Suc n) = Connected h \<and>
                   writer (snd res) = Some h \<and> reader (snd res) = Some h)
         else retries + Suc n = max_retries \<and>
              writer (snd res) = writer c \<and> reader (snd res) = reader c"
      using n(3) by (simp split: if_splits)
    have rc: "request_counter (snd res) = request_counter c" using n(4) by simp
    have lg: "log_file (snd res) = log_file c" using n(5) by simp
    show ?thesis
      unfolding step using t fails w rc lg by blast
  qed
qed


lemma reconnect_loop_frame:
  "request_counter (snd (reconnect_loop attempt False 0 c)) = request_counter c \<and>
   log_file (snd (reconnect_loop attempt False 0 c)) = log_file c \<and>
   written (trace (snd (reconnect_loop attempt False 0 c))) = written (trace c) \<and>
   prefix (trace c) (trace (snd (reconnect_loop attempt False 0 c))) \<and>
   ((\<exists>h. writer c = Some h) \<longrightarrow> (\<exists>h. writer (snd (reconnect_loop attempt False 0 c)) = Some h))"
proof -
  define res where "res = reconnect_loop attempt False 0 c"
  from reconnect_loop_spec [of 0 attempt c] obtain n where n:
    "trace (snd res) = trace c @ concat (replicate n [OpenConnection, Sleep 1000])
            @ (if fst res then [OpenConnection] else [])"
    "if fst res
     then 0 + n < max_retries \<and>
          (\<exists>h. attempt (0 + n) = Connected h \<and> writer (snd res) = Some h \<and>
               reader (snd res) = Some h)
     else 0 + n = max_retries \<and> writer (snd res) = writer c \<and> reader (snd res) = reader c"
    "request_counter (snd res) = request_counter c"
    "log_file (snd res) = log_file c"
    unfolding res_def by blast
  have w: "written (trace (snd res)) = written (trace c)" using n(1) by simp
  have p: "prefix (trace c) (trace (snd res))" using n(1) by simp
  have wr: "(\<exists>h. writer c = Some h) \<longrightarrow> (\<exists>h. writer (snd res) = Some h)"
    using n(2) by (cases "fst res") auto
  show ?thesis unfolding res_def [symmetric] using n(3,4) w p wr by blast
qed

lemma reconnect_frame:
  "request_counter (snd (reconnect closing attempt c)) = request_counter c \<and>
   log_file (snd (reconnect closing attempt c)) = log_file c \<and>
   written (trace (snd (reconnect closing attempt c))) = written (trace c) \<and>
   prefix (trace c) (trace (snd (reconnect closing attempt c))) \<and>
   ((\<exists>h. writer c = Some h) \<longrightarrow> (\<exists>h. writer (snd (reconnect closing attempt c)) = Some h))"
proof (cases "writer c")
  case None
  then have r: "snd (reconnect closing attempt c) = snd (reconnect_loop attempt False 0 c)"
    by (simp add: reconnect_def split: prod.splits)
  show ?thesis unfolding r using reconnect_loop_frame [of attempt c] .
next
  case (Some h)
  define c1 where "c1 = do_action (Close h) c"
  have c1: "request_counter c1 = request_counter c" "log_file c1 = log_file c"
    "written (trace c1) = written (trace c)" "prefix (trace c) (trace c1)"
    "writer c1 = writer c"
    by (simp_all add: c1_def)
  show ?thesis
  proof (cases closing)
    case (Some e)
    then have "snd (reconnect closing attempt c) = c1"
      using \<open>writer c = Some h\<close> by (simp add: reconnect_def c1_def)
    then show ?thesis using c1 by simp
  next
    case None
    then have r: "snd (reconnect closing attempt c) = snd (reconnect_loop attempt False 0 c1)"
      using \<open>writer c = Some h\<close> by (simp add: reconnect_def c1_def split: prod.splits)
    have "prefix (trace c) (trace (snd (reconnect_loop attempt False 0 c1)))"
      using reconnect_loop_frame [of attempt c1] c1(4) prefix_order.trans by blast
    then show ?thesis unfolding r using reconnect_loop_frame [of attempt c1] c1 by simp
  qed
qed

lemma reconnect_counter [simp]:
  "request_counter (snd (reconnect closing attempt c)) = request_counter c"
  using reconnect_frame [of closing attempt c] by blast

lemma reconnect_log [simp]: "log_file (snd (reconnect closing attempt c)) = log_file c"
  using reconnect_frame [of closing attempt c] by blast

lemma reconnect_written [simp]:
  "written (trace (snd (reconnect closing attempt c))) = written (trace c)"
  using reconnect_frame [of closing attempt c] by blast

lemma reconnect_writer:
  "\<exists>h. writer c = Some h \<Longrightarrow> \<exists>h. writer (snd (reconnect closing attempt c)) = Some h"
  using reconnect_frame [of closing attempt c] by blast

lemma snd_await_reconnect:
  "snd (await_reconnect closing attempt c) = snd (reconnect closing attempt c)"
  by (simp add: await_reconnect_def split: prod.splits sum.splits)

lemma await_reconnect_counter [simp]:
  "request_counter (snd (await_reconnect closing attempt c)) = request_counter c"
  by (simp add: snd_await_reconnect)

lemma await_reconnect_log [simp]:
  "log_file (snd (await_reconnect closing attempt c)) = log_file c"
  by (simp add: snd_await_reconnect)

lemma await_reconnect_written [simp]:
  "written (trace (snd (await_reconnect closing attempt c))) = written (trace c)"
  by (simp add: snd_await_reconnect)

lemma await_reconnect_writer:
  "\<exists>h. writer c = Some h \<Longrightarrow> \<exists>h. writer (snd (await_reconnect closing attempt c)) = Some h"
  by (simp add: snd_await_reconnect reconnect_writer)

lemma after_keepalive_counter [simp]:
  "request_counter (snd (after_keepalive env rq rs c)) = request_counter c"
  by (simp add: after_keepalive_def Let_def split: read_result.splits option.splits)

lemma after_keepalive_written [simp]:
  "written (trace (snd (after_keepalive env rq rs c))) = written (trace c)"
  by (simp add: after_keepalive_def Let_def split: read_result.splits option.splits)

lemma after_keepalive_writer:
  "\<exists>h. writer c = Some h \<Longrightarrow> \<exists>h. writer (snd (after_keepalive env rq rs c)) = Some h"
  by (simp add: after_keepalive_def Let_def await_reconnect_writer
      split: read_result.splits option.splits)

lemma after_keepalive_log:
  "prefix l (log_file c) \<Longrightarrow> prefix l (log_file (snd (after_keepalive env rq rs c)))"
  by (simp add: after_keepalive_def Let_def client_write_log_def append_log_def
      split: read_result.splits option.splits)

lemma wait_reply_counter [simp]:
  "request_counter (snd (wait_reply env rq c)) = request_counter c"
  by (simp add: wait_reply_def Let_def split: read_result.splits option.splits)

lemma wait_reply_written [simp]:
  "written (trace (snd (wait_reply env rq c))) = written (trace c)"
  by (simp add: wait_reply_def Let_def split: read_result.splits option.splits)

lemma wait_reply_writer:
  "\<exists>h. writer c = Some h \<Longrightarrow> \<exists>h. writer (snd (wait_reply env rq c)) = Some h"
  by (simp add: wait_reply_def Let_def await_reconnect_writer after_keepalive_writer
      split: read_result.splits option.splits)

lemma wait_reply_log:
  "prefix l (log_file c) \<Longrightarrow> prefix l (log_file (snd (wait_reply env rq c)))"
  by (simp add: wait_reply_def Let_def client_write_log_def append_log_def after_keepalive_log
      split: read_result.splits option.splits)

lemma send_ping_counter:
  "request_counter (snd (send_ping env c)) =
     (if writer c \<noteq> None \<and> drain env = None then request_counter c + 1
      else request_counter c)"
  by (simp add: send_ping_def Let_def split: option.splits)

lemma send_ping_written:
  "written (trace (snd (send_ping env c))) =
     written (trace c) @
       (case writer c of None \<Rightarrow> [] | Some h \<Rightarrow> [(h, ping_text (request_counter c))])"
  by (simp add: send_ping_def Let_def split: option.splits)

lemma send_ping_writer:
  "\<exists>h. writer c = Some h \<Longrightarrow> \<exists>h. writer (snd (send_ping env c)) = Some h"
  by (auto simp add: send_ping_def Let_def await_reconnect_writer wait_reply_writer
      split: option.splits)

lemma send_ping_log:
  "prefix l (log_file c) \<Longrightarrow> prefix l (log_file (snd (send_ping env c)))"
  by (simp add: send_ping_def Let_def wait_reply_log split: option.splits)

lemma message_receiver_counter [simp]:
  "request_counter (snd (message_receiver rd rt d closing attempt c)) = request_counter c"
  by (simp add: message_receiver_def Let_def split: read_result.splits option.splits)

lemma message_receiver_written [simp]:
  "written (trace (snd (message_receiver rd rt d closing attempt c))) = written (trace c)"
  by (simp add: message_receiver_def Let_def split: read_result.splits option.splits)

lemma message_receiver_writer:
  "\<exists>h. writer c = Some h \<Longrightarrow>
   \<exists>h. writer (snd (message_receiver rd rt d closing attempt c)) = Some h"
  by (simp add: message_receiver_def Let_def await_reconnect_writer
      split: read_result.splits option.splits)

lemma message_receiver_log:
  "prefix l (log_file c) \<Longrightarrow>
   prefix l (log_file (snd (message_receiver rd rt d closing attempt c)))"
  by (simp add: message_receiver_def Let_def client_write_log_def append_log_def
      split: read_result.splits option.splits)

lemma client_step_log:
  "prefix l (log_file c) \<Longrightarrow> prefix l (log_file (snd (client_step ev c)))"
proof (cases ev)
  case (Ping env delay)
  assume "prefix l (log_file c)"
  then have "prefix l (log_file (snd (send_ping env c)))" by (rule send_ping_log)
  then show ?thesis using Ping
    by (cases "send_ping env c") (auto split: option.splits)
next
  case (Receive rd rt d closing attempt)
  assume "prefix l (log_file c)"
  then show ?thesis using Receive message_receiver_log [of l c rd rt d closing attempt]
    by (cases "message_receiver rd rt d closing attempt c") auto
qed

lemma client_exec_log:
  "prefix l (log_file c) \<Longrightarrow> prefix l (log_file (snd (client_exec evs c)))"
proof (induction evs arbitrary: c)
  case Nil
  then show ?case by simp
next
  case (Cons ev evs)
  obtain r c1 where st: "client_step ev c = (r, c1)" by (cases "client_step ev c")
  have p: "prefix l (log_file c1)" using client_step_log [OF Cons.prems, of ev] st by simp
  show ?case
  proof (cases r)
    case None
    then show ?thesis using st Cons.IH [OF p] by simp
  next
    case (Some e)
    then show ?thesis using st p by simp
  qed
qed

lemma client_exec_numbers:
  "\<exists>h. writer c = Some h \<Longrightarrow> fst (client_exec evs c) = None \<Longrightarrow>
   map snd (written (trace (snd (client_exec evs c)))) =
     map snd (written (trace c)) @ map ping_text (numbers (request_counter c) evs)"
proof (induction evs arbitrary: c)
  case Nil
  then show ?case by simp
next
  case (Cons ev evs)
  from Cons.prems(1) obtain h where h: "writer c = Some h" by blast
  show ?case
  proof (cases ev)
    case (Ping env delay)
    obtain r c1 where sp: "send_ping env c = (r, c1)" by (cases "send_ping env c")
    have r: "r = None" using Cons.prems(2) Ping sp by (cases r) simp_all
    define c2 where "c2 = do_action (Sleep delay) c1"
    have ex: "client_exec (ev # evs) c = client_exec evs c2"
      using Ping sp r by (simp add: c2_def)
    have w: "\<exists>h. writer c2 = Some h"
      using send_ping_writer [OF Cons.prems(1), of env] sp by (simp add: c2_def)
    have cnt: "request_counter c2 =
        (if drain env = None then request_counter c + 1 else request_counter c)"
      using send_ping_counter [of env c] sp h by (simp add: c2_def)
    have wr: "written (trace c2) = written (trace c) @ [(h, ping_text (request_counter c))]"
      using send_ping_written [of env c] sp h by (simp add: c2_def)
    have f: "fst (client_exec evs c2) = None" using Cons.prems(2) ex by simp
    have "map snd (written (trace (snd (client_exec evs c2)))) =
            map snd (written (trace c2)) @ map ping_text (numbers (request_counter c2) evs)"
      using Cons.IH [OF w f] .
    then show ?thesis unfolding ex using Ping cnt wr by simp
  next
    case (Receive rd rt d closing attempt)
    define c2 where "c2 = snd (client_step ev c)"
    have ex: "client_exec (ev # evs) c = client_exec evs c2"
      using Receive by (simp add: c2_def split: prod.splits)
    have c2: "c2 = c \<or> (\<exists>r. c2 = (snd (message_receiver rd rt d closing attempt c))
                                  \<lparr>receiver_exn := r\<rparr>)"
      using Receive by (auto simp add: c2_def split: prod.splits)
    have w: "\<exists>h. writer c2 = Some h"
      using c2 message_receiver_writer [OF Cons.prems(1), of rd rt d closing attempt]
        Cons.prems(1) by auto
    have rc: "request_counter c2 = request_counter c" using c2 by auto
    have wt: "written (trace c2) = written (trace c)" using c2 by auto
    have f: "fst (client_exec evs c2) = None" using Cons.prems(2) ex by simp
    have "map snd (written (trace (snd (client_exec evs c2)))) =
            map snd (written (trace c2)) @ map ping_text (numbers (request_counter c2) evs)"
      using Cons.IH [OF w f] .
    then show ?thesis unfolding ex using Receive rc wt by simp
  qed
qed

lemma client_run_connected:
  "client_run ident file (Connected h) evs closing =
     run_finally
       (fst (client_exec evs
             ((do_action OpenConnection (truncate_log (TCPClient_init ident file)))
                \<lparr>reader := Some h, writer := Some h\<rparr>)))
       closing
       (snd (client_exec evs
             ((do_action OpenConnection (truncate_log (TCPClient_init ident file)))
                \<lparr>reader := Some h, writer := Some h\<rparr>)))"
  by (simp add: client_run_def connect_def Let_def split: prod.splits)

lemma written_run_finally [simp]:
  "written (trace (snd (run_finally raised closing c))) = written (trace c)"
  by (simp add: run_finally_def split: option.splits)

lemma fst_run_finally_None [simp]: "fst (run_finally raised None c) = raised"
  by (simp add: run_finally_def split: option.splits)

lemma log_run_finally [simp]: "log_file (snd (run_finally raised closing c)) = log_file c"
  by (simp add: run_finally_def split: option.splits)

section \<open>Lines of ASCII text\<close>

text \<open>
  For a received line that decodes as ASCII: on every value that \<^verbatim>\<open>random.random()\<close> can
  return, the test of the drop decision is the comparison with 0.10; when the drop
  branch fires, the only change is one entry in the audit log that marks the request as
  ignored; when it does not fire, this stretch adds nothing to the audit log.
\<close>

lemma ascii_line_drop_decision:
  assumes "map_of (handlers s) w = Some (Reading cid)"
      and "decode_ascii data = Some text"
  shows "(random_value k < float_0_1) = (random_value k < 1 / 10) \<and>
         (rnd < float_0_1 \<longrightarrow>
            step (Recv w (Data data) request_time rnd date_str) s =
              s\<lparr>log_file := log_file s @
                   [date_str @ '';'' @ request_time @ '';'' @ strip text @ '';''
                      @ ignored_marker @ '';'' @ ignored_marker]\<rparr>) \<and>
         (\<not> rnd < float_0_1 \<longrightarrow>
            log_file (step (Recv w (Data data) request_time rnd date_str) s) = log_file s)"
proof (intro conjI impI)
  show "(random_value k < float_0_1) = (random_value k < 1 / 10)" by (rule random_threshold)
next
  assume "rnd < float_0_1"
  then show "step (Recv w (Data data) request_time rnd date_str) s =
              s\<lparr>log_file := log_file s @
                   [date_str @ '';'' @ request_time @ '';'' @ strip text @ '';''
                      @ ignored_marker @ '';'' @ ignored_marker]\<rparr>"
    using assms by (simp add: handle_recv_def write_log_def append_log_def)
next
  assume "\<not> rnd < float_0_1"
  then show "log_file (step (Recv w (Data data) request_time rnd date_str) s) = log_file s"
    using assms by (simp add: handle_recv_def Let_def split: option.splits)
qed

text \<open>
  For a received line that decodes as ASCII and is not dropped: when the characters
  between index 1 and the first \<^verbatim>\<open>]\<close> parse as an integer \<open>n\<close>, the handler goes to the
  delay with it, and on waking writes the reply with \<open>n\<close> as the request number.
\<close>

lemma ascii_line_integer_answered:
  assumes "map_of (handlers s) w = Some (Reading cid)"
      and "decode_ascii data = Some text"
      and "\<not> rnd < float_0_1"
      and "py_int (bracket_text (strip text)) = Some n"
  shows "step (Recv w (Data data) request_time rnd date_str) s =
           s\<lparr>handlers := AList.update w (Sleeping cid request_time (strip text) n) (handlers s)\<rparr> \<and>
         (\<forall>s'. map_of (handlers s') w = Some (Sleeping cid request_time (strip text) n) \<longrightarrow>
            wire (step (Wake w response_time) s') =
              wire s' @ [(w, Pong (response_counter s') n cid)])"
  using assms
  by (auto simp add: handle_recv_def parse_request_eq handle_wake_def get_next_response_id_def
      Let_def split: option.splits)

section \<open>The claims about the server\<close>




text \<open>
  Claim C4, as amended. A received line of ASCII text for which the drop decision, taken
  first, does not fire is skipped, the state of the server left as it was (nothing
  written, nothing logged, the handler back in \<^verbatim>\<open>readuntil\<close>), exactly when \<^verbatim>\<open>int\<close> refuses
  the characters between index 1 and the first \<^verbatim>\<open>]\<close> of the stripped line. Nothing else
  of the format \<^verbatim>\<open>[<request_number>] PING\<close> is checked: a line of that format (of at most
  4300 characters) is never skipped, but lines that are not of the format are skipped
  only when they fail this one test.
\<close>

theorem line_skipped_iff_no_integer:
  assumes "map_of (handlers s) w = Some (Reading cid)"
      and "decode_ascii data = Some text"
      and "\<not> rnd < float_0_1"
  shows "(step (Recv w (Data data) request_time rnd date_str) s = s) =
           (py_int (bracket_text (strip text)) = None) \<and>
         (request_format (strip text) \<and> length (strip text) \<le> int_max_str_digits \<longrightarrow>
            step (Recv w (Data data) request_time rnd date_str) s \<noteq> s)"
proof -
  have skipped: "(step (Recv w (Data data) request_time rnd date_str) s = s) =
           (py_int (bracket_text (strip text)) = None)"
  proof (cases "py_int (bracket_text (strip text))")
    case None
    then show ?thesis using assms by (simp add: handle_recv_def parse_request_eq)
  next
    case (Some n)
    let ?h = "AList.update w (Sleeping cid request_time (strip text) n) (handlers s)"
    have st: "step (Recv w (Data data) request_time rnd date_str) s = s\<lparr>handlers := ?h\<rparr>"
      using assms Some by (simp add: handle_recv_def parse_request_eq)
    have "s\<lparr>handlers := ?h\<rparr> \<noteq> s"
    proof
      assume "s\<lparr>handlers := ?h\<rparr> = s"
      then have "handlers (s\<lparr>handlers := ?h\<rparr>) = handlers s" by simp
      then have "map_of ?h w = map_of (handlers s) w" by simp
      then show False using assms(1) by (simp add: update_conv')
    qed
    then show ?thesis using st Some by simp
  qed
  have "\<exists>n. py_int (bracket_text (strip text)) = Some n"
    if "request_format (strip text)" and "length (strip text) \<le> int_max_str_digits"
    using that by (rule request_format_parses)
  then show ?thesis using skipped by auto
qed

text \<open>
  The amended claim C4 on the line \<^verbatim>\<open>hello\<close>, which is skipped, and on the request
  \<^verbatim>\<open>[0] PING\<close>, which is not; neither is dropped.
\<close>

theorem line_skipped_iff_no_integer_witness:
  "map_of (handlers one_client) 1 = Some (Reading 1) \<and>
   decode_ascii ''hello\<newline>'' = Some ''hello\<newline>'' \<and>
   \<not> 1 / 2 < float_0_1 \<and>
   py_int (bracket_text (strip ''hello\<newline>'')) = None \<and>
   step (Recv 1 (Data ''hello\<newline>'') ''10:00:00.000'' (1 / 2) ''2024-01-01'')
     one_client = one_client \<and>
   decode_ascii ''[0] PING\<newline>'' = Some ''[0] PING\<newline>'' \<and>
   request_format (strip ''[0] PING\<newline>'') \<and>
   step (Recv 1 (Data ''[0] PING\<newline>'') ''10:00:00.000'' (1 / 2) ''2024-01-01'')
     one_client \<noteq> one_client"
proof -
  have d: "decode_ascii ''hello\<newline>'' = Some ''hello\<newline>''" by code_simp
  have r: "\<not> 1 / 2 < float_0_1" by (simp add: float_0_1_def)
  have p: "py_int (bracket_text (strip ''hello\<newline>'')) = None" by code_simp
  from line_skipped_iff_no_integer
         [OF one_client_handler d r, of "''10:00:00.000''" "''2024-01-01''"] p
  have n: "step (Recv 1 (Data ''hello\<newline>'') ''10:00:00.000'' (1 / 2) ''2024-01-01'')
     one_client = one_client"
    by blast
  have d2: "decode_ascii ''[0] PING\<newline>'' = Some ''[0] PING\<newline>''" by code_simp
  have f2: "request_format (strip ''[0] PING\<newline>'')" by code_simp
  have l2: "length (strip ''[0] PING\<newline>'') \<le> int_max_str_digits" by code_simp
  from line_skipped_iff_no_integer
         [OF one_client_handler d2 r, of "''10:00:00.000''" "''2024-01-01''"] f2 l2
  have n2: "step (Recv 1 (Data ''[0] PING\<newline>'') ''10:00:00.000'' (1 / 2) ''2024-01-01'')
     one_client \<noteq> one_client"
    by blast
  from one_client_handler d r p n d2 f2 n2 show ?thesis by blast
qed

text \<open>
  Claim C4 as stated fails. The line \<^verbatim>\<open>X 7 ]hello\<close> does not match the format of a
  request, yet it is answered with a reply for request 7 and logged; and the line
  \<^verbatim>\<open>hello\<close>, when the drop decision fires, gets an entry in the audit log that marks it
  as ignored.
\<close>

theorem malformed_line_answered_or_logged:
  "\<not> request_format ''X 7 ]hello'' \<and>
   wire (server_run [] number_without_format) = [(1, Pong 0 7 1)] \<and>
   log_file (server_run [] number_without_format) =
     [''2024-01-01;10:00:00.000;X 7 ]hello;10:00:00.400;[0/7] PONG (1)''] \<and>
   \<not> request_format ''hello'' \<and>
   log_file (server_run [] no_number_dropped) =
     [''2024-01-01;10:00:00.000;hello;'' @ ignored_marker @ '';'' @ ignored_marker]"
  unfolding number_without_format_def no_number_dropped_def by code_simp

text \<open>
  Claim C5 does not hold of a received line with a byte above 127. The line is decoded
  (line 100) before the drop decision (line 106) and outside every \<^verbatim>\<open>try\<close> that catches
  \<^verbatim>\<open>ValueError\<close>: with a random value of 0, for which the drop branch would fire, nothing
  is written to the audit log, and the handler does not go on reading but ends with
  \<^verbatim>\<open>UnicodeDecodeError\<close>, its connection closed.
\<close>

theorem line_not_ascii_ends_handler_without_drop_entry:
  "log_file (server_run [] not_ascii_dropped) = [] \<and>
   wire (server_run [] not_ascii_dropped) = [] \<and>
   finished (server_run [] not_ascii_dropped) = [(1, Some UnicodeDecodeError)] \<and>
   handlers (server_run [] not_ascii_dropped) = []"
  unfolding not_ascii_dropped_def not_ascii_def by code_simp

text \<open>
  Claim C8 does not hold of the \<^verbatim>\<open>finally\<close> block of \<^verbatim>\<open>handle_client\<close>. While a handler
  sleeps before its reply, a keepalive round fails to write to its connection and removes
  the writer from \<^verbatim>\<open>self.clients\<close>; when the handler wakes, its \<^verbatim>\<open>drain\<close> raises
  \<^verbatim>\<open>ConnectionError\<close>, and \<^verbatim>\<open>del self.clients[writer]\<close> in the cleanup raises
  \<^verbatim>\<open>KeyError\<close>, which leaves the handler before the writer is closed.
\<close>

theorem cleanup_after_keepalive_removal_raises:
  "clients (server_run [] (take 4 broken_during_delay)) = [] \<and>
   map_of (handlers (server_run [] (take 4 broken_during_delay))) 1 =
     Some (Sleeping 1 ''10:00:00.000'' ''[0] PING'' 0) \<and>
   finished (server_run [] broken_during_delay) = [(1, Some KeyError)] \<and>
   closed_writers (server_run [] broken_during_delay) = []"
  unfolding broken_during_delay_def by code_simp

text \<open>
  Claim C10 does not hold of the line \<^verbatim>\<open>[7] \<close> followed by a byte above 127. The
  characters between index 1 and the first \<^verbatim>\<open>]\<close> are an integer (the expression of line
  114 gives 7 on the line), and the line is not dropped, but it is not answered: the decoding of line 100 raises before the number is
  looked at, and the handler ends with \<^verbatim>\<open>UnicodeDecodeError\<close>.
\<close>

theorem integer_line_not_ascii_gets_no_reply:
  "parse_request number_then_not_ascii = Some 7 \<and>
   wire (server_run [] number_then_not_ascii_kept) = [] \<and>
   finished (server_run [] number_then_not_ascii_kept) = [(1, Some UnicodeDecodeError)] \<and>
   handlers (server_run [] number_then_not_ascii_kept) = []"
  unfolding number_then_not_ascii_kept_def number_then_not_ascii_def by code_simp

section \<open>The claims about the client\<close>

text \<open>
  Claim C2, as amended. The counter of a new client is 0. Every \<^verbatim>\<open>send_ping\<close> with a
  connection writes exactly one request, on the current connection, carrying the
  current counter; the counter then grows by one exactly when the send succeeded
  (\<^verbatim>\<open>drain\<close> returned), whatever the wait for the reply brings, and keeps its value when
  the send raised or there is no connection. Neither \<^verbatim>\<open>reconnect\<close> nor the receiver
  changes the counter. Hence in a run whose loop no exception ends, the requests written
  are numbered by the count of the successful sends before them, across all connections:
  the numbering goes on after a reconnect.
\<close>

theorem request_numbers_follow_successful_sends:
  "request_counter (TCPClient_init ident file) = 0 \<and>
   written (trace (snd (send_ping env c))) =
     written (trace c) @
       (case writer c of None \<Rightarrow> [] | Some h \<Rightarrow> [(h, ping_text (request_counter c))]) \<and>
   request_counter (snd (send_ping env c)) =
     (if writer c \<noteq> None \<and> drain env = None then request_counter c + 1
      else request_counter c) \<and>
   request_counter (snd (reconnect closing attempt c)) = request_counter c \<and>
   request_counter (snd (message_receiver rd receive_time date_str closing attempt c))
     = request_counter c \<and>
   (fst (client_run ident file (Connected h0) evs None) = None \<longrightarrow>
      map snd (written (trace (snd (client_run ident file (Connected h0) evs closing')))) =
        map ping_text (numbers 0 evs))"
proof (intro conjI impI)
  show "request_counter (TCPClient_init ident file) = 0" by (simp add: TCPClient_init_def)
  show "written (trace (snd (send_ping env c))) =
     written (trace c) @
       (case writer c of None \<Rightarrow> [] | Some h \<Rightarrow> [(h, ping_text (request_counter c))])"
    by (rule send_ping_written)
  show "request_counter (snd (send_ping env c)) =
     (if writer c \<noteq> None \<and> drain env = None then request_counter c + 1
      else request_counter c)"
    by (rule send_ping_counter)
  show "request_counter (snd (reconnect closing attempt c)) = request_counter c" by simp
  show "request_counter (snd (message_receiver rd receive_time date_str closing attempt c))
     = request_counter c"
    by simp
next
  assume ok: "fst (client_run ident file (Connected h0) evs None) = None"
  let ?c1 = "(do_action OpenConnection (truncate_log (TCPClient_init ident file)))
                \<lparr>reader := Some h0, writer := Some h0\<rparr>"
  have f: "fst (client_exec evs ?c1) = None" using ok by (simp add: client_run_connected)
  have w: "\<exists>h. writer ?c1 = Some h" by simp
  have c0: "request_counter ?c1 = 0" "written (trace ?c1) = []"
    by (simp_all add: truncate_log_def TCPClient_init_def)
  have "map snd (written (trace (snd (client_exec evs ?c1)))) =
          map snd (written (trace ?c1)) @ map ping_text (numbers (request_counter ?c1) evs)"
    using client_exec_numbers [OF w f] .
  then have "map snd (written (trace (snd (client_exec evs ?c1)))) =
          map ping_text (numbers 0 evs)"
    unfolding c0 by simp
  then show "map snd (written (trace (snd (client_run ident file (Connected h0) evs closing')))) =
        map ping_text (numbers 0 evs)"
    by (simp add: client_run_connected)
qed

text \<open>The amended claim C2 on a run with a reconnect between the second and third request.\<close>

theorem request_numbers_follow_successful_sends_witness:
  "fst (client_run 1 [] (Connected 1) reconnect_run None) = None \<and>
   map snd (written (trace (snd (client_run 1 [] (Connected 1) reconnect_run None)))) =
     [''[0] PING'', ''[1] PING'', ''[1] PING'']"
proof -
  have a: "fst (client_run 1 [] (Connected 1) reconnect_run None) = None"
    unfolding reconnect_run_def by code_simp
  have b: "map ping_text (numbers 0 reconnect_run) = [''[0] PING'', ''[1] PING'', ''[1] PING'']"
    unfolding reconnect_run_def by code_simp
  from request_numbers_follow_successful_sends [of 1 "[]" _ _ _ _ _ _ _ 1 reconnect_run None] a b show ?thesis by simp
qed

text \<open>
  Claim C2 as stated fails: the first request written on the connection obtained by the
  reconnect carries the number 1, and not 0.
\<close>

theorem numbering_not_restarted_after_reconnect:
  "written (trace (snd (client_run 1 [] (Connected 1) reconnect_run None))) =
     [(1, ''[0] PING''), (1, ''[1] PING''), (2, ''[1] PING'')]"
  unfolding reconnect_run_def by code_simp

text \<open>
  Claim C3 does not hold of \<^verbatim>\<open>send_ping\<close>. A keepalive arrives during the wait for the
  reply and no line follows within 0.1 seconds: the keepalive is logged as a push, and
  then the entry of the request records the text of the keepalive as its response.
\<close>

theorem keepalive_logged_as_correlated_response:
  "log_file (snd (client_run 1 [] (Connected 1) [Ping keepalive_then_silence 300] None)) =
     [''2024-01-01;;;10:00:00.050;[5] keepalive'',
      ''2024-01-01;10:00:00.000;[0] PING;10:00:00.050;[5] keepalive'']"
  by code_simp

text \<open>
  Claim C6 does not hold of \<^verbatim>\<open>reconnect\<close> after a reset by the peer. The \<^verbatim>\<open>drain\<close> of
  \<^verbatim>\<open>send_ping\<close> raises \<^verbatim>\<open>ConnectionError\<close> and \<^verbatim>\<open>reconnect\<close> is entered; it closes the
  handle, and \<^verbatim>\<open>await self.writer.wait_closed()\<close> (line 165, outside the \<^verbatim>\<open>try\<close> of the
  loop) raises the error of the reset again: no attempt to connect is made, although the
  server would accept one, and the exception leaves \<^verbatim>\<open>send_ping\<close> and \<^verbatim>\<open>run\<close>. Likewise,
  when the server closes the connection during the wait of 2.0 seconds,
  \<^verbatim>\<open>IncompleteReadError\<close> leaves \<^verbatim>\<open>send_ping\<close> and no reconnect is entered.
\<close>

theorem reconnect_abandoned_when_wait_closed_raises:
  "drain reset_by_peer = Some ConnectionError \<and>
   send_ping reset_by_peer connected_client =
     (Some ConnectionError,
      connected_client\<lparr>trace := [OpenConnection, Write 1 ''[0] PING'', Close 1]\<rparr>) \<and>
   fst (client_run 1 [] (Connected 1) [Ping reset_by_peer 300] (Some ConnectionError)) =
     Some ConnectionError \<and>
   send_ping closed_by_peer connected_client =
     (Some IncompleteReadError,
      connected_client\<lparr>request_counter := 1,
        trace := [OpenConnection, Write 1 ''[0] PING'', ReadUntil (Some 2000)]\<rparr>)"
  by code_simp

text \<open>
  Claim C7 does not hold of a cycle in which a keepalive arrives first. The wait for the
  reply then goes on for 0.1 seconds, not for what is left of the 2.0 seconds; when it
  expires, the entry of the request carries the text of the keepalive, none carries the
  timeout marker.
\<close>

theorem wait_after_keepalive_expires_without_timeout_entry:
  "send_ping keepalive_then_silence connected_client =
     (None,
      connected_client
        \<lparr>log_file := [''2024-01-01;;;10:00:00.050;[5] keepalive'',
                      ''2024-01-01;10:00:00.000;[0] PING;10:00:00.050;[5] keepalive''],
         request_counter := 1,
         trace := [OpenConnection, Write 1 ''[0] PING'', ReadUntil (Some 2000),
                   ReadUntil (Some 100)]\<rparr>)"
  by code_simp

section \<open>The claim about the audit log of both roles\<close>

text \<open>
  Claim C9. A run of either role starts from the empty log file; every event of the
  server and of the client, and every sequence of them, leaves the log it found as a
  prefix of the log it leaves, so entries are only added at the end; and a second run on
  the log file of a first run leaves what it leaves on an empty file, nothing of the
  first run.
\<close>

theorem audit_log_truncated_then_appended:
  "log_file (server_run file []) = [] \<and>
   prefix (log_file s) (log_file (step e s)) \<and>
   prefix (log_file s) (log_file (exec evs s)) \<and>
   log_file (server_run (log_file (server_run file evs1)) evs2) = log_file (server_run [] evs2) \<and>
   log_file (snd (client_run ident file first [] closing)) = [] \<and>
   prefix (log_file c) (log_file (snd (client_step ev c))) \<and>
   prefix (log_file c) (log_file (snd (client_exec cevs c))) \<and>
   log_file (snd (client_run ident (log_file (snd (client_run ident file first cevs1 closing1)))
                    first2 cevs2 closing2))
     = log_file (snd (client_run ident [] first2 cevs2 closing2))"
proof (intro conjI)
  show "log_file (server_run file []) = []"
    by (simp add: server_run_def exec_def truncate_log_def)
  show "prefix (log_file s) (log_file (step e s))" by (simp add: log_step)
  show "prefix (log_file s) (log_file (exec evs s))" by (simp add: log_exec)
  show "log_file (server_run (log_file (server_run file evs1)) evs2) = log_file (server_run [] evs2)"
    by (simp add: server_run_def truncate_log_def TCPServer_init_def)
  show "log_file (snd (client_run ident file first [] closing)) = []"
    by (cases first)
       (simp_all add: client_run_def connect_def truncate_log_def TCPClient_init_def Let_def
         do_action_def)
  show "prefix (log_file c) (log_file (snd (client_step ev c)))" by (simp add: client_step_log)
  show "prefix (log_file c) (log_file (snd (client_exec cevs c)))" by (simp add: client_exec_log)
  show "log_file (snd (client_run ident (log_file (snd (client_run ident file first cevs1 closing1)))
                    first2 cevs2 closing2))
     = log_file (snd (client_run ident [] first2 cevs2 closing2))"
    by (simp add: client_run_def truncate_log_def TCPClient_init_def)
qed

text \<open>Claim C9 on a server run that starts from a file with an old entry.\<close>

theorem audit_log_truncated_then_appended_witness:
  "log_file (server_run [''old entry''] reply_inside_keepalive_round) =
     [''2024-01-01;10:00:00.000;[0] PING;10:00:00.400;[1/0] PONG (2)''] \<and>
   log_file (server_run (log_file (server_run [''old entry''] reply_inside_keepalive_round))
       [Accept 1]) = []"
proof -
  have a: "log_file (server_run [] [Accept 1]) = []" by code_simp
  have b: "log_file (server_run [''old entry''] reply_inside_keepalive_round) =
     [''2024-01-01;10:00:00.000;[0] PING;10:00:00.400;[1/0] PONG (2)'']"
    unfolding reply_inside_keepalive_round_def by code_simp
  from audit_log_truncated_then_appended [of "[''old entry'']" _ _ _ reply_inside_keepalive_round "[Accept 1]"] a b
  show ?thesis by simp
qed

end
